theory Spec2Isabelle
  imports Main "HOL-Library.Word"
begin

unbundle bit_operations_syntax

section \<open>EdDSA over Baby Jubjub with Poseidon: a shallow embedding of eddsa-poseidon.ts\<close>

text \<open>
  The source file holds two variants of the same module, one after the other: the older
  one (lines 1 to 122) calls the package's own \<^verbatim>\<open>babyjub\<close>, \<^verbatim>\<open>field\<close>,
  \<^verbatim>\<open>scalar\<close> and \<^verbatim>\<open>utils\<close> modules, the newer one (lines 122 to 351) calls the
  packages \<^verbatim>\<open>@zk-kit/baby-jubjub\<close> and \<^verbatim>\<open>@zk-kit/utils\<close>. None of the modules they
  import is part of the source at hand. The functions of the two variants are embedded
  line by line; what they import is either a field of the record \<open>env\<close> below (the
  curve library, the two hashes, the input checks), or a definition modelled on the
  specification's description of it (byte pruning, little-endian conversion, the
  arithmetic modulo the subgroup order).
\<close>

subsection \<open>Values: bytes, big numbers, points, signatures, errors\<close>

type_synonym byte = "8 word"

text \<open>A Node \<^verbatim>\<open>Buffer\<close> is a list of bytes.\<close>

type_synonym buffer = "byte list"

text \<open>
  \<^verbatim>\<open>BigNumber = bigint | string\<close>: the type of the coordinates of a point and of the
  scalar of a signature. Strings are strings of characters below 256.
\<close>

datatype bignumber = BigIntV int | StringV string

type_synonym 'n point = "'n \<times> 'n"

record 'n signature =
  R8 :: "'n point"
  S :: 'n

text \<open>
  What the functions throw. \<open>SyntaxError\<close> is what \<^verbatim>\<open>BigInt(s)\<close> throws on a string
  that is no integer literal; \<open>InvalidPublicKey\<close> is \<^verbatim>\<open>Error("Invalid public key")\<close>,
  \<open>InvalidPublicKeyType\<close> is \<^verbatim>\<open>TypeError("Invalid public key type")\<close>;
  \<open>InvalidPrivateKey\<close> and \<open>InvalidMessage\<close> are the failures of the two input checks.
\<close>

datatype error =
    SyntaxError
  | InvalidPublicKey
  | InvalidPublicKeyType
  | InvalidPrivateKey
  | InvalidMessage

text \<open>Sequencing of computations that may throw: the first exception wins.\<close>

definition bindE :: "error + 'a \<Rightarrow> ('a \<Rightarrow> error + 'b) \<Rightarrow> error + 'b" where
  "bindE m f = (case m of Inl e \<Rightarrow> Inl e | Inr x \<Rightarrow> f x)"

subsection \<open>The language's own conversions: \<^verbatim>\<open>toString\<close> and \<^verbatim>\<open>BigInt\<close>\<close>

definition digit_char :: "nat \<Rightarrow> char" where
  "digit_char d = ''0123456789'' ! d"

text \<open>The characters that are decimal digits.\<close>

definition is_dec :: "char \<Rightarrow> bool" where
  "is_dec c = (\<exists>d<10. c = digit_char d)"

fun digits10 :: "nat \<Rightarrow> string" where
  "digits10 n = (if n < 10 then [digit_char n] else digits10 (n div 10) @ [digit_char (n mod 10)])"

declare digits10.simps [simp del]

text \<open>\<^verbatim>\<open>x.toString()\<close> of a bigint: its decimal digits, after a minus sign when negative.\<close>

definition toString :: "int \<Rightarrow> string" where
  "toString i = (if i < 0 then CHR ''-'' # digits10 (nat (- i)) else digits10 (nat i))"

text \<open>The value of a digit character in a base up to 16; \<open>None\<close> for any other character.\<close>

definition digit_val :: "char \<Rightarrow> nat option" where
  "digit_val c =
     (let n = (of_char c :: nat) in
      if 48 \<le> n \<and> n \<le> 57 then Some (n - 48)
      else if 97 \<le> n \<and> n \<le> 102 then Some (n - 87)
      else if 65 \<le> n \<and> n \<le> 70 then Some (n - 55)
      else None)"

fun parse_digits_acc :: "nat \<Rightarrow> nat \<Rightarrow> string \<Rightarrow> nat option" where
  "parse_digits_acc b acc [] = Some acc"
| "parse_digits_acc b acc (c # cs) =
     (case digit_val c of
        None \<Rightarrow> None
      | Some d \<Rightarrow> if d < b then parse_digits_acc b (acc * b + d) cs else None)"

text \<open>A non-empty run of digits of base \<open>b\<close>, most significant first.\<close>

definition parse_digits :: "nat \<Rightarrow> string \<Rightarrow> nat option" where
  "parse_digits b cs = (if cs = [] then None else parse_digits_acc b 0 cs)"

text \<open>
  The white space and line terminators that string-to-number conversion trims, among the
  characters below 256: TAB, LF, VT, FF, CR, the space and the no-break space.
\<close>

definition is_ws :: "char \<Rightarrow> bool" where
  "is_ws c = ((of_char c :: nat) \<in> {9, 10, 11, 12, 13, 32, 160})"

definition trim :: "string \<Rightarrow> string" where
  "trim s = rev (dropWhile is_ws (rev (dropWhile is_ws s)))"

text \<open>
  \<^verbatim>\<open>BigInt(s)\<close> on a string (StringToBigInt): white space is trimmed; the empty string
  is 0; a prefix \<^verbatim>\<open>0x\<close>, \<^verbatim>\<open>0o\<close> or \<^verbatim>\<open>0b\<close> (either case) selects the base and
  allows no sign; otherwise an optional sign and decimal digits. Anything else is a
  SyntaxError (\<open>None\<close>).
\<close>

definition StringToBigInt :: "string \<Rightarrow> int option" where
  "StringToBigInt str =
     (let t = trim str in
      if t = [] then Some 0
      else if take 2 t = ''0x'' \<or> take 2 t = ''0X'' then map_option int (parse_digits 16 (drop 2 t))
      else if take 2 t = ''0o'' \<or> take 2 t = ''0O'' then map_option int (parse_digits 8 (drop 2 t))
      else if take 2 t = ''0b'' \<or> take 2 t = ''0B'' then map_option int (parse_digits 2 (drop 2 t))
      else if hd t = CHR ''-'' then map_option (\<lambda>n. - int n) (parse_digits 10 (tl t))
      else if hd t = CHR ''+'' then map_option int (parse_digits 10 (tl t))
      else map_option int (parse_digits 10 t))"

text \<open>\<^verbatim>\<open>BigInt(x)\<close> for \<open>x\<close> a bigint or a string.\<close>

definition BigInt :: "bignumber \<Rightarrow> error + int" where
  "BigInt x =
     (case x of
        BigIntV i \<Rightarrow> Inr i
      | StringV s \<Rightarrow> (case StringToBigInt s of None \<Rightarrow> Inl SyntaxError | Some i \<Rightarrow> Inr i))"

subsection \<open>Helpers the module imports, as the specification describes them\<close>

text \<open>
  Modelled from the spec: \<^verbatim>\<open>utils.pruneBuffer\<close>, which the source calls and does not
  contain. The specification (4.1): "clear the lowest 3 bits of the first byte, clear the
  top bit of the last byte, and set the second-highest bit of the last byte". A write to
  a buffer at an index it does not have changes nothing, as \<open>xs[i := v]\<close> does.
\<close>

definition pruneBuffer :: "buffer \<Rightarrow> buffer" where
  "pruneBuffer buff =
     (let l = length buff - 1;
          b1 = buff[0 := (buff ! 0) AND 0xF8];
          b2 = b1[l := (b1 ! l) AND 0x7F];
          b3 = b2[l := (b2 ! l) OR 0x40]
      in b3)"

text \<open>
  Modelled from the spec: \<^verbatim>\<open>leBufferToBigInt\<close> of the utility package, which the
  source calls and does not contain: "interpret the pruned 32 bytes as a little-endian
  integer" (4.1). The first byte is the least significant.
\<close>

definition leBufferToBigInt :: "buffer \<Rightarrow> int" where
  "leBufferToBigInt buff = foldr (\<lambda>b acc. uint b + 256 * acc) buff 0"

text \<open>
  Modelled from the spec: \<^verbatim>\<open>utils.leBuff2int\<close> of the older variant, not in the source.
  The specification describes one conversion from little-endian bytes for both variants.
\<close>

definition leBuff2int :: "buffer \<Rightarrow> int" where
  "leBuff2int buff = leBufferToBigInt buff"

text \<open>
  Modelled from the spec: \<^verbatim>\<open>leBigIntToBuffer(value, size)\<close> of the utility package, not
  in the source: "the message encoded as a fixed-width little-endian byte buffer" (4.3),
  by "fixed-width buffer padding/truncation" (6). Byte \<open>i\<close> of the result holds bits
  \<open>8 * i\<close> to \<open>8 * i + 7\<close> of the value.
\<close>

definition leBigIntToBuffer :: "int \<Rightarrow> nat \<Rightarrow> buffer" where
  "leBigIntToBuffer v sz = map (\<lambda>i. word_of_int (drop_bit (8 * i) v)) [0..<sz]"

text \<open>
  Modelled from the spec: \<^verbatim>\<open>utils.leInt2Buff(value)\<close> of the older variant, not in the
  source. The specification describes one fixed-width encoding for both variants; the
  width is the 32 bytes that the newer variant passes.
\<close>

definition leInt2Buff :: "int \<Rightarrow> buffer" where
  "leInt2Buff v = leBigIntToBuffer v 32"

text \<open>
  Modelled from the spec: \<^verbatim>\<open>scalar.shiftRight\<close>, not in the source: "right-shift by 3
  bits" (4.1). A right shift of a bigint is arithmetic (it rounds towards minus
  infinity), and a negative count shifts left.
\<close>

definition shiftRight :: "int \<Rightarrow> int \<Rightarrow> int" where
  "shiftRight a n = (if 0 \<le> n then drop_bit (nat n) a else push_bit (nat (- n)) a)"

text \<open>
  Modelled from the spec: \<^verbatim>\<open>scalar.mul\<close>, not in the source: the product \<open>8 * hm\<close> of
  the verification equation (4.4).
\<close>

definition scalar_mul :: "int \<Rightarrow> int \<Rightarrow> int" where
  "scalar_mul a b = a * b"

text \<open>
  Modelled from the spec: the method \<^verbatim>\<open>e\<close> of the field wrapper (\<^verbatim>\<open>F1Field\<close>, in the
  older variant \<^verbatim>\<open>Field\<close>), not in the source: "thin arithmetic over a prime-order
  field, used only to reduce the per-signature nonce and the response scalar modulo the
  subgroup order" (2). The first argument is the order the field was constructed with.
\<close>

definition F1_e :: "int \<Rightarrow> int \<Rightarrow> int" where
  "F1_e order x = x mod order"

text \<open>
  Modelled from the spec: the method \<^verbatim>\<open>add\<close> of the field wrapper, not in the source:
  the sum in \<open>S = (r + hm * s) mod subOrder\<close> (4.3).
\<close>

definition F1_add :: "int \<Rightarrow> int \<Rightarrow> int \<Rightarrow> int" where
  "F1_add order a b = (a + b) mod order"

text \<open>
  Modelled from the spec: the method \<^verbatim>\<open>mul\<close> of the field wrapper, not in the source:
  the product in \<open>S = (r + hm * s) mod subOrder\<close> (4.3).
\<close>

definition F1_mul :: "int \<Rightarrow> int \<Rightarrow> int \<Rightarrow> int" where
  "F1_mul order a b = (a * b) mod order"

subsection \<open>The collaborators the module is linked with\<close>

text \<open>
  Everything else the two variants import is a field of this record: the input checks of
  \<^verbatim>\<open>utils\<close> (\<open>'b\<close> is the type of the raw inputs, \<^verbatim>\<open>BigNumberish\<close>), the Blake hash,
  the Poseidon hash of five inputs, and the curve library (its base point, the order of
  the subgroup, scalar multiplication, addition, the membership test, the equality of its
  base field, and the codec of compressed points), and the two string tests of the
  utility package. A function that throws returns \<open>Inl\<close>; \<^verbatim>\<open>unpackPoint\<close> returning
  \<^verbatim>\<open>null\<close> is \<open>None\<close>.
\<close>

record 'b env =
  checkPrivateKey :: "'b \<Rightarrow> error + buffer"
  checkMessage :: "'b \<Rightarrow> error + int"
  isPoint :: "bignumber point \<Rightarrow> bool"
  isSignature :: "bignumber signature \<Rightarrow> bool"
  blake :: "buffer \<Rightarrow> buffer"
  poseidon5 :: "bignumber list \<Rightarrow> int"
  Base8 :: "int point"
  subOrder :: int
  mulPointEscalar :: "int point \<Rightarrow> int \<Rightarrow> int point"
  addPoint :: "int point \<Rightarrow> int point \<Rightarrow> int point"
  inCurve :: "bignumber point \<Rightarrow> bool"
  Fr_eq :: "int \<Rightarrow> int \<Rightarrow> bool"
  packPoint :: "int point \<Rightarrow> int"
  unpackPoint :: "int \<Rightarrow> int point option"
  isStringifiedBigint :: "string \<Rightarrow> bool"
  isHexadecimal :: "string \<Rightarrow> bool"

subsection \<open>The newer variant (lines 159 to 306)\<close>

text \<open>
  \<^verbatim>\<open>hash.slice(a, b)\<close> of a buffer. In Node the slice shares its bytes with \<^verbatim>\<open>hash\<close>,
  so pruning the slice of bytes 0 to 31 in place also changes those bytes of \<^verbatim>\<open>hash\<close>;
  the functions below read only bytes 32 to 63 of \<^verbatim>\<open>hash\<close> afterwards, which pruning does
  not touch, so the model passes values.
\<close>

definition slice :: "buffer \<Rightarrow> nat \<Rightarrow> nat \<Rightarrow> buffer" where
  "slice buff a b = take (b - a) (drop a buff)"

definition deriveSecretScalar :: "'b env \<Rightarrow> 'b \<Rightarrow> error + string" where
  "deriveSecretScalar env privateKey =
     bindE (checkPrivateKey env privateKey) (\<lambda>privateKey.
       let hash = blake env privateKey;
           hash = slice hash 0 32;
           hash = pruneBuffer hash
       in Inr (toString (shiftRight (leBufferToBigInt hash) 3)))"

definition derivePublicKey :: "'b env \<Rightarrow> 'b \<Rightarrow> error + string point" where
  "derivePublicKey env privateKey =
     bindE (deriveSecretScalar env privateKey) (\<lambda>s.
     bindE (BigInt (StringV s)) (\<lambda>s'.
       let publicKey = mulPointEscalar env (Base8 env) s'
       in Inr (toString (fst publicKey), toString (snd publicKey))))"

text \<open>
  The values \<^verbatim>\<open>signMessage\<close> computes on its way, in the order of the source: the
  pruned scalar \<open>s\<close>, the public point \<open>A\<close>, the nonce \<open>r\<close>, the commitment \<open>R8\<close>, the
  challenge \<open>hm\<close> and the response \<open>S\<close>.
\<close>

record sign_trace =
  tr_s :: int
  tr_A :: "int point"
  tr_r :: int
  tr_R8 :: "int point"
  tr_hm :: int
  tr_S :: int

definition signMessage_trace :: "'b env \<Rightarrow> 'b \<Rightarrow> 'b \<Rightarrow> error + sign_trace" where
  "signMessage_trace env privateKey message =
     bindE (checkPrivateKey env privateKey) (\<lambda>privateKey.
     bindE (checkMessage env message) (\<lambda>message.
       let hash = blake env privateKey;
           sBuff = pruneBuffer (slice hash 0 32);
           s = leBufferToBigInt sBuff;
           A = mulPointEscalar env (Base8 env) (shiftRight s 3);
           msgBuff = leBigIntToBuffer message 32;
           rBuff = blake env (slice hash 32 64 @ msgBuff);
           r = F1_e (subOrder env) (leBufferToBigInt rBuff);
           R8' = mulPointEscalar env (Base8 env) r;
           hm = poseidon5 env
                  [BigIntV (fst R8'), BigIntV (snd R8'), BigIntV (fst A), BigIntV (snd A),
                   BigIntV message];
           S' = F1_add (subOrder env) r (F1_mul (subOrder env) hm s)
       in Inr \<lparr>tr_s = s, tr_A = A, tr_r = r, tr_R8 = R8', tr_hm = hm, tr_S = S'\<rparr>))"

definition signMessage :: "'b env \<Rightarrow> 'b \<Rightarrow> 'b \<Rightarrow> error + string signature" where
  "signMessage env privateKey message =
     bindE (signMessage_trace env privateKey message) (\<lambda>t.
       Inr \<lparr>R8 = (toString (fst (tr_R8 t)), toString (snd (tr_R8 t))),
            S = toString (tr_S t)\<rparr>)"

definition verifySignature ::
  "'b env \<Rightarrow> 'b \<Rightarrow> bignumber signature \<Rightarrow> bignumber point \<Rightarrow> error + bool" where
  "verifySignature env message signature publicKey =
     (if \<not> isPoint env publicKey then Inr False
      else if \<not> isSignature env signature then Inr False
      else if \<not> inCurve env (R8 signature) then Inr False
      else if \<not> inCurve env publicKey then Inr False
      else
        bindE (BigInt (S signature)) (\<lambda>sS.
          if sS \<ge> subOrder env then Inr False
          else
            bindE (checkMessage env message) (\<lambda>message.
            bindE (BigInt (fst (R8 signature))) (\<lambda>r0.
            bindE (BigInt (snd (R8 signature))) (\<lambda>r1.
            bindE (BigInt (S signature)) (\<lambda>sS'.
            bindE (BigInt (fst publicKey)) (\<lambda>p0.
            bindE (BigInt (snd publicKey)) (\<lambda>p1.
              let hm = poseidon5 env
                         [fst (R8 signature), snd (R8 signature), fst publicKey, snd publicKey,
                          BigIntV message];
                  pLeft = mulPointEscalar env (Base8 env) sS';
                  pRight = mulPointEscalar env (p0, p1) (scalar_mul hm 8);
                  pRight = addPoint env (r0, r1) pRight
              in Inr (Fr_eq env (fst pLeft) (fst pRight) \<and> Fr_eq env (snd pLeft) (snd pRight))))))))))"

definition packPublicKey :: "'b env \<Rightarrow> bignumber point \<Rightarrow> error + string" where
  "packPublicKey env publicKey =
     (if \<not> isPoint env publicKey \<or> \<not> inCurve env publicKey then Inl InvalidPublicKey
      else
        bindE (BigInt (fst publicKey)) (\<lambda>p0.
        bindE (BigInt (snd publicKey)) (\<lambda>p1.
          Inr (toString (packPoint env (p0, p1))))))"

definition unpackPublicKey :: "'b env \<Rightarrow> bignumber \<Rightarrow> error + string point" where
  "unpackPublicKey env publicKey =
     (if (case publicKey of BigIntV _ \<Rightarrow> False | StringV _ \<Rightarrow> True) \<and>
         (case publicKey of BigIntV _ \<Rightarrow> True | StringV s \<Rightarrow> \<not> isStringifiedBigint env s) \<and>
         (case publicKey of BigIntV _ \<Rightarrow> True | StringV s \<Rightarrow> \<not> isHexadecimal env s)
      then Inl InvalidPublicKeyType
      else
        bindE (BigInt publicKey) (\<lambda>n.
          case unpackPoint env n of
            None \<Rightarrow> Inl InvalidPublicKey
          | Some unpackedPublicKey \<Rightarrow>
              Inr (toString (fst unpackedPublicKey), toString (snd unpackedPublicKey))))"

subsection \<open>The older variant (lines 19 to 122)\<close>

text \<open>
  The same four functions as the older variant has them. It returns the secret scalar as
  a bigint and without the shift, which it applies in \<^verbatim>\<open>derivePublicKey\<close> instead.
\<close>

definition deriveSecretScalar_old :: "'b env \<Rightarrow> 'b \<Rightarrow> error + int" where
  "deriveSecretScalar_old env privateKey =
     bindE (checkPrivateKey env privateKey) (\<lambda>privateKey.
       let hash = blake env privateKey
       in Inr (leBuff2int (pruneBuffer (slice hash 0 32))))"

definition derivePublicKey_old :: "'b env \<Rightarrow> 'b \<Rightarrow> error + string point" where
  "derivePublicKey_old env privateKey =
     bindE (deriveSecretScalar_old env privateKey) (\<lambda>s.
       let publicKey = mulPointEscalar env (Base8 env) (shiftRight s 3)
       in Inr (toString (fst publicKey), toString (snd publicKey)))"

definition signMessage_old :: "'b env \<Rightarrow> 'b \<Rightarrow> 'b \<Rightarrow> error + string signature" where
  "signMessage_old env privateKey message =
     bindE (checkPrivateKey env privateKey) (\<lambda>privateKey.
     bindE (checkMessage env message) (\<lambda>message.
       let hash = blake env privateKey;
           sBuff = pruneBuffer (slice hash 0 32);
           s = leBuff2int sBuff;
           A = mulPointEscalar env (Base8 env) (shiftRight s 3);
           msgBuff = leInt2Buff message;
           rBuff = blake env (slice hash 32 64 @ msgBuff);
           r = F1_e (subOrder env) (leBuff2int rBuff);
           R8' = mulPointEscalar env (Base8 env) r;
           hm = poseidon5 env
                  [BigIntV (fst R8'), BigIntV (snd R8'), BigIntV (fst A), BigIntV (snd A),
                   BigIntV message];
           S' = F1_add (subOrder env) r (F1_mul (subOrder env) hm s)
       in Inr \<lparr>R8 = (toString (fst R8'), toString (snd R8')), S = toString S'\<rparr>))"

definition verifySignature_old ::
  "'b env \<Rightarrow> 'b \<Rightarrow> bignumber signature \<Rightarrow> bignumber point \<Rightarrow> error + bool" where
  "verifySignature_old env message signature publicKey =
     (if \<not> isPoint env publicKey then Inr False
      else if \<not> isSignature env signature then Inr False
      else if \<not> inCurve env (R8 signature) then Inr False
      else if \<not> inCurve env publicKey then Inr False
      else
        bindE (BigInt (S signature)) (\<lambda>sS.
          if sS \<ge> subOrder env then Inr False
          else
            bindE (checkMessage env message) (\<lambda>message.
            bindE (BigInt (fst (R8 signature))) (\<lambda>r0.
            bindE (BigInt (snd (R8 signature))) (\<lambda>r1.
            bindE (BigInt (S signature)) (\<lambda>sS'.
            bindE (BigInt (fst publicKey)) (\<lambda>p0.
            bindE (BigInt (snd publicKey)) (\<lambda>p1.
              let hm = poseidon5 env
                         [fst (R8 signature), snd (R8 signature), fst publicKey, snd publicKey,
                          BigIntV message];
                  pLeft = mulPointEscalar env (Base8 env) sS';
                  pRight = mulPointEscalar env (p0, p1) (scalar_mul hm 8);
                  pRight = addPoint env (r0, r1) pRight
              in Inr (Fr_eq env (fst pLeft) (fst pRight) \<and> Fr_eq env (snd pLeft) (snd pRight))))))))))"

subsection \<open>What the specification asks of the collaborators\<close>

text \<open>
  The Blake hash "produces a 64-byte digest from an arbitrary-length byte buffer" (6).
\<close>

definition blake_contract :: "'b env \<Rightarrow> bool" where
  "blake_contract env = (\<forall>b. length (blake env b) = 64)"

text \<open>
  The curve library, on the multiples of the base point by scalars that are not negative:
  the subgroup order is positive, scalar multiplication distributes over the sum and the
  product of scalars, the base point has an order dividing the subgroup order, its
  multiples pass the membership test when written as decimal strings, and every field
  element equals itself.
\<close>

definition curve_contract :: "'b env \<Rightarrow> bool" where
  "curve_contract env =
     (0 < subOrder env \<and>
      (\<forall>a b. 0 \<le> a \<and> 0 \<le> b \<longrightarrow>
         mulPointEscalar env (Base8 env) (a + b) =
           addPoint env (mulPointEscalar env (Base8 env) a) (mulPointEscalar env (Base8 env) b)) \<and>
      (\<forall>a b. 0 \<le> a \<and> 0 \<le> b \<longrightarrow>
         mulPointEscalar env (mulPointEscalar env (Base8 env) a) b =
           mulPointEscalar env (Base8 env) (a * b)) \<and>
      (\<forall>a. 0 \<le> a \<longrightarrow>
         mulPointEscalar env (Base8 env) (a mod subOrder env) = mulPointEscalar env (Base8 env) a) \<and>
      (\<forall>a. 0 \<le> a \<longrightarrow>
         inCurve env (StringV (toString (fst (mulPointEscalar env (Base8 env) a))),
                      StringV (toString (snd (mulPointEscalar env (Base8 env) a))))) \<and>
      (\<forall>x. Fr_eq env x x))"

text \<open>
  The Poseidon hash reads each of its inputs as a big integer, whether it is given as a
  bigint or as a string, and returns an element of its field, which is not negative.
\<close>

definition poseidon_contract :: "'b env \<Rightarrow> bool" where
  "poseidon_contract env =
     ((\<forall>xs ys. map BigInt xs = map BigInt ys \<longrightarrow> poseidon5 env xs = poseidon5 env ys) \<and>
      (\<forall>xs. 0 \<le> poseidon5 env xs))"

text \<open>
  The shape tests of \<^verbatim>\<open>utils\<close>: a pair of decimal strings is a point, and a record of a
  pair of decimal strings and a decimal string is a signature.
\<close>

definition shape_contract :: "'b env \<Rightarrow> bool" where
  "shape_contract env =
     ((\<forall>x y. isPoint env (StringV (toString x), StringV (toString y))) \<and>
      (\<forall>x y z. isSignature env
         \<lparr>R8 = (StringV (toString x), StringV (toString y)), S = StringV (toString z)\<rparr>))"

text \<open>
  A signature and a public key as \<^verbatim>\<open>signMessage\<close> and \<^verbatim>\<open>derivePublicKey\<close> return
  them (decimal strings), handed to a function that takes values of type \<^verbatim>\<open>BigNumber\<close>.
\<close>

definition pointOfStrings :: "string point \<Rightarrow> bignumber point" where
  "pointOfStrings p = (StringV (fst p), StringV (snd p))"

definition signatureOfStrings :: "string signature \<Rightarrow> bignumber signature" where
  "signatureOfStrings sg = \<lparr>R8 = pointOfStrings (R8 sg), S = StringV (S sg)\<rparr>"

subsection \<open>The specification's words for the two derivations\<close>

text \<open>
  Section 4.1 of the specification, in its own words: of the low 32 bytes of the digest,
  "clear the lowest 3 bits of the first byte, clear the top bit of the last byte, and set
  the second-highest bit of the last byte", "interpret the pruned 32 bytes as a
  little-endian integer", "right-shift by 3 bits".
\<close>

definition prune_byte :: "nat \<Rightarrow> nat \<Rightarrow> byte \<Rightarrow> byte" where
  "prune_byte n i b =
     (let b = (if i = 0 then unset_bit 0 (unset_bit 1 (unset_bit 2 b)) else b);
          b = (if Suc i = n then set_bit 6 (unset_bit 7 b) else b)
      in b)"

definition prune_spec :: "buffer \<Rightarrow> buffer" where
  "prune_spec bs = map (\<lambda>i. prune_byte (length bs) i (bs ! i)) [0..<length bs]"

definition le_value :: "buffer \<Rightarrow> int" where
  "le_value bs = (\<Sum>i<length bs. uint (bs ! i) * 256 ^ i)"

definition secretScalar_spec :: "buffer \<Rightarrow> int" where
  "secretScalar_spec digest = le_value (prune_spec (take 32 digest)) div 2 ^ 3"

text \<open>
  Section 4.3, step 2: the nonce is the hash of "the digest's high 32 bytes" followed by
  "the message encoded as a fixed-width little-endian byte buffer", read as an integer and
  reduced "modulo the curve's subgroup order".
\<close>

definition le_bytes :: "nat \<Rightarrow> int \<Rightarrow> buffer" where
  "le_bytes n v = map (\<lambda>i. word_of_int ((v div 256 ^ i) mod 256)) [0..<n]"

definition nonce_spec :: "'b env \<Rightarrow> buffer \<Rightarrow> int \<Rightarrow> int" where
  "nonce_spec env digest message =
     le_value (blake env (take 32 (drop 32 digest) @ le_bytes 32 message)) mod subOrder env"

subsection \<open>A reference instance of the collaborators\<close>

text \<open>
  An instance of the record that meets every contract above, used to run the module on
  concrete inputs. The subgroup generated by the base point is cyclic of order
  \<open>subOrder\<close>; the instance writes the point \<open>k * Base8\<close> as the pair \<open>(k, 0)\<close> with
  \<open>0 \<le> k < subOrder\<close>, so that adding points adds these numbers modulo \<open>subOrder\<close> and
  multiplying by a scalar multiplies them. The subgroup order and the field modulus are
  those of Baby Jubjub. Raw inputs are bigints: a private key is an integer of at most 32
  bytes, a message an integer below the field modulus. The two hashes are simple
  stand-ins of the right shape.
\<close>

definition ref_subOrder :: int where
  "ref_subOrder = 2736030358979909402780800718157159386076813972158567259200215660948447373041"

definition ref_prime :: int where
  "ref_prime = 21888242871839275222246405745257275088548364400416034343698204186575808495617"

definition ref_checkPrivateKey :: "int \<Rightarrow> error + buffer" where
  "ref_checkPrivateKey k =
     (if 0 \<le> k \<and> k < 2 ^ 256 then Inr (leBigIntToBuffer k 32) else Inl InvalidPrivateKey)"

definition ref_checkMessage :: "int \<Rightarrow> error + int" where
  "ref_checkMessage m = (if 0 \<le> m \<and> m < ref_prime then Inr m else Inl InvalidMessage)"

definition ref_isBigNumber :: "bignumber \<Rightarrow> bool" where
  "ref_isBigNumber x = (case BigInt x of Inl _ \<Rightarrow> False | Inr _ \<Rightarrow> True)"

definition ref_isPoint :: "bignumber point \<Rightarrow> bool" where
  "ref_isPoint p = (ref_isBigNumber (fst p) \<and> ref_isBigNumber (snd p))"

definition ref_isSignature :: "bignumber signature \<Rightarrow> bool" where
  "ref_isSignature sg = (ref_isPoint (R8 sg) \<and> ref_isBigNumber (S sg))"

definition ref_blake :: "buffer \<Rightarrow> buffer" where
  "ref_blake bs = take 64 (bs @ replicate 64 0x5A)"

definition ref_value :: "bignumber \<Rightarrow> int" where
  "ref_value x = (case BigInt x of Inl _ \<Rightarrow> 0 | Inr v \<Rightarrow> v)"

definition ref_poseidon5 :: "bignumber list \<Rightarrow> int" where
  "ref_poseidon5 xs = sum_list (map ref_value xs) mod ref_prime"

definition ref_mulPointEscalar :: "int point \<Rightarrow> int \<Rightarrow> int point" where
  "ref_mulPointEscalar p e = ((fst p * e) mod ref_subOrder, 0)"

definition ref_addPoint :: "int point \<Rightarrow> int point \<Rightarrow> int point" where
  "ref_addPoint p q = ((fst p + fst q) mod ref_subOrder, 0)"

definition ref_inCurve :: "bignumber point \<Rightarrow> bool" where
  "ref_inCurve p =
     (case BigInt (fst p) of
        Inl _ \<Rightarrow> False
      | Inr x \<Rightarrow> (case BigInt (snd p) of
                   Inl _ \<Rightarrow> False
                 | Inr y \<Rightarrow> 0 \<le> x \<and> x < ref_subOrder \<and> y = 0))"

definition ref_packPoint :: "int point \<Rightarrow> int" where
  "ref_packPoint p = fst p"

definition ref_unpackPoint :: "int \<Rightarrow> int point option" where
  "ref_unpackPoint n = (if 0 \<le> n \<and> n < ref_subOrder then Some (n, 0) else None)"

definition ref_isStringifiedBigint :: "string \<Rightarrow> bool" where
  "ref_isStringifiedBigint s = (StringToBigInt s \<noteq> None)"

definition ref_isHexadecimal :: "string \<Rightarrow> bool" where
  "ref_isHexadecimal s = (take 2 s = ''0x'' \<and> parse_digits 16 (drop 2 s) \<noteq> None)"

definition ref_env :: "int env" where
  "ref_env =
     \<lparr>checkPrivateKey = ref_checkPrivateKey,
      checkMessage = ref_checkMessage,
      isPoint = ref_isPoint,
      isSignature = ref_isSignature,
      blake = ref_blake,
      poseidon5 = ref_poseidon5,
      Base8 = (1, 0),
      subOrder = ref_subOrder,
      mulPointEscalar = ref_mulPointEscalar,
      addPoint = ref_addPoint,
      inCurve = ref_inCurve,
      Fr_eq = (=),
      packPoint = ref_packPoint,
      unpackPoint = ref_unpackPoint,
      isStringifiedBigint = ref_isStringifiedBigint,
      isHexadecimal = ref_isHexadecimal\<rparr>"

text \<open>
  The signature of the message 2 under the private key 1 in the reference instance, and
  the public key of the private key 1, as \<^verbatim>\<open>signMessage\<close> and \<^verbatim>\<open>derivePublicKey\<close>
  return them there (lemmas \<open>ref_sign12\<close> and \<open>ref_public1\<close> below).
\<close>

definition ref_signature12 :: "string signature" where
  "ref_signature12 =
     \<lparr>R8 = (toString 1584969137027076003691281864059827491971851263691403784961200172958132751143,
            toString 0),
      S = toString 244422078449749203520314070784228841412691970501801992125575372064488449371\<rparr>"

definition ref_publicKey1 :: "string point" where
  "ref_publicKey1 =
     (toString 882472429686221704205792563364337734337873048642700367032833839298837928207,
      toString 0)"

section \<open>Properties\<close>

subsection \<open>Decimal strings are read back as the integer they were written from\<close>

lemma bindE_Inl [simp]: "bindE (Inl e) f = Inl e"
  by (simp add: bindE_def)

lemma bindE_Inr [simp]: "bindE (Inr x) f = f x"
  by (simp add: bindE_def)

lemma digit_val_digit_char: "d < 10 \<Longrightarrow> digit_val (digit_char d) = Some d"
proof -
  assume "d < 10"
  then consider "d = 0" | "d = 1" | "d = 2" | "d = 3" | "d = 4" | "d = 5" | "d = 6" | "d = 7" | "d = 8" | "d = 9"
    by atomize_elim arith
  then show ?thesis
    by cases (simp_all add: digit_val_def digit_char_def)
qed

lemma parse_digits_acc_append:
  "parse_digits_acc b acc (xs @ ys) =
     (case parse_digits_acc b acc xs of None \<Rightarrow> None | Some a \<Rightarrow> parse_digits_acc b a ys)"
  by (induction xs arbitrary: acc) (auto split: option.splits)

lemma parse_digits_acc_digits10: "parse_digits_acc 10 0 (digits10 n) = Some n"
proof (induction n rule: digits10.induct)
  case (1 n)
  show ?case
  proof (cases "n < 10")
    case True
    then show ?thesis
      by (subst digits10.simps) (simp add: digit_val_digit_char)
  next
    case False
    with 1 have "parse_digits_acc 10 0 (digits10 (n div 10)) = Some (n div 10)" by simp
    with False show ?thesis
      by (subst digits10.simps) (simp add: parse_digits_acc_append digit_val_digit_char)
  qed
qed

lemma digits10_nonempty: "digits10 n \<noteq> []"
  by (subst digits10.simps) simp

lemma digit_char_facts:
  "d < 10 \<Longrightarrow> \<not> is_ws (digit_char d) \<and> digit_char d \<noteq> CHR ''-'' \<and> digit_char d \<noteq> CHR ''+''
     \<and> digit_char d \<noteq> CHR ''x'' \<and> digit_char d \<noteq> CHR ''X'' \<and> digit_char d \<noteq> CHR ''o''
     \<and> digit_char d \<noteq> CHR ''O'' \<and> digit_char d \<noteq> CHR ''b'' \<and> digit_char d \<noteq> CHR ''B''"
proof -
  assume "d < 10"
  then consider "d = 0" | "d = 1" | "d = 2" | "d = 3" | "d = 4" | "d = 5" | "d = 6" | "d = 7" | "d = 8" | "d = 9"
    by atomize_elim arith
  then show ?thesis
    by cases (simp_all add: is_ws_def digit_char_def)
qed


lemma digits10_is_dec: "c \<in> set (digits10 n) \<Longrightarrow> is_dec c"
proof (induction n rule: digits10.induct)
  case (1 n)
  show ?case
  proof (cases "n < 10")
    case True
    with 1(2) show ?thesis
      by (subst (asm) digits10.simps) (auto simp: is_dec_def)
  next
    case False
    from 1(2) False have "c \<in> set (digits10 (n div 10)) \<or> c = digit_char (n mod 10)"
      by (subst (asm) digits10.simps) auto
    moreover have "is_dec (digit_char (n mod 10))"
      unfolding is_dec_def by (rule exI [of _ "n mod 10"]) simp
    ultimately show ?thesis
      using 1(1) False by blast
  qed
qed

lemma trim_id:
  assumes "s \<noteq> []" "\<not> is_ws (hd s)" "\<not> is_ws (last s)"
  shows "trim s = s"
proof -
  from assms have "dropWhile is_ws s = s"
    by (cases s) auto
  moreover from assms have "dropWhile is_ws (rev s) = rev s"
    by (cases "rev s") (auto simp: last_rev [symmetric])
  ultimately show ?thesis
    by (simp add: trim_def)
qed

lemma is_dec_facts:
  "is_dec c \<Longrightarrow> \<not> is_ws c \<and> c \<noteq> CHR ''-'' \<and> c \<noteq> CHR ''+''
     \<and> c \<noteq> CHR ''x'' \<and> c \<noteq> CHR ''X'' \<and> c \<noteq> CHR ''o''
     \<and> c \<noteq> CHR ''O'' \<and> c \<noteq> CHR ''b'' \<and> c \<noteq> CHR ''B''"
  using digit_char_facts by (auto simp: is_dec_def)

lemma no_prefix_dec:
  assumes "\<forall>c \<in> set t. is_dec c" "p \<in> {CHR ''x'', CHR ''X'', CHR ''o'', CHR ''O'', CHR ''b'', CHR ''B''}"
  shows "take 2 t \<noteq> [CHR ''0'', p]"
proof (cases t)
  case Nil
  then show ?thesis by simp
next
  case (Cons a u)
  show ?thesis
  proof (cases u)
    case Nil
    with Cons show ?thesis by simp
  next
    case (Cons b v)
    with \<open>t = a # u\<close> assms(1) have "is_dec b" by simp
    with is_dec_facts [of b] assms(2) have "b \<noteq> p" by auto
    with Cons \<open>t = a # u\<close> show ?thesis by simp
  qed
qed

lemma StringToBigInt_digits10: "StringToBigInt (digits10 n) = Some (int n)"
proof -
  let ?t = "digits10 n"
  have dec: "\<forall>c \<in> set ?t. is_dec c" using digits10_is_dec by blast
  have ne: "?t \<noteq> []" by (rule digits10_nonempty)
  then have "hd ?t \<in> set ?t" "last ?t \<in> set ?t" by simp_all
  with dec have h: "is_dec (hd ?t)" and l: "is_dec (last ?t)" by blast+
  from ne h l have tr: "trim ?t = ?t"
    by (intro trim_id) (simp_all add: is_dec_facts)
  have np: "take 2 ?t \<noteq> ''0x''" "take 2 ?t \<noteq> ''0X''" "take 2 ?t \<noteq> ''0o''"
    "take 2 ?t \<noteq> ''0O''" "take 2 ?t \<noteq> ''0b''" "take 2 ?t \<noteq> ''0B''"
    using no_prefix_dec [OF dec] by simp_all
  from h have sg: "hd ?t \<noteq> CHR ''-''" "hd ?t \<noteq> CHR ''+''"
    using is_dec_facts by blast+
  show ?thesis
    unfolding StringToBigInt_def Let_def tr
    using ne np sg by (simp add: parse_digits_def parse_digits_acc_digits10)
qed

lemma StringToBigInt_minus_digits10:
  "StringToBigInt (CHR ''-'' # digits10 n) = Some (- int n)"
proof -
  let ?t = "CHR ''-'' # digits10 n"
  have dec: "\<forall>c \<in> set (digits10 n). is_dec c" using digits10_is_dec by blast
  have ne: "digits10 n \<noteq> []" by (rule digits10_nonempty)
  then have "last (digits10 n) \<in> set (digits10 n)" by simp
  with dec have l: "is_dec (last (digits10 n))" by blast
  from ne have "last ?t = last (digits10 n)" by simp
  with l have "\<not> is_ws (last ?t)" by (simp add: is_dec_facts)
  moreover have "\<not> is_ws (hd ?t)" by (simp add: is_ws_def)
  ultimately have tr: "trim ?t = ?t"
    by (intro trim_id) simp_all
  show ?thesis
    unfolding StringToBigInt_def Let_def tr
    using ne by (simp add: parse_digits_def parse_digits_acc_digits10)
qed

lemma StringToBigInt_toString [simp]: "StringToBigInt (toString i) = Some i"
  by (simp add: toString_def StringToBigInt_digits10 StringToBigInt_minus_digits10)

lemma BigInt_toString [simp]: "BigInt (StringV (toString i)) = Inr i"
  by (simp add: BigInt_def)

lemma BigInt_BigIntV [simp]: "BigInt (BigIntV i) = Inr i"
  by (simp add: BigInt_def)

lemma toString_inj: "toString a = toString b \<Longrightarrow> a = b"
proof -
  assume "toString a = toString b"
  then have "StringToBigInt (toString a) = StringToBigInt (toString b)" by simp
  then show "a = b" by simp
qed

subsection \<open>Bytes, pruning and little-endian integers\<close>

lemma low3: "take_bit 3 ((x::8 word) AND 0xF8) = 0"
  by (rule bit_word_eqI) (auto simp: bit_simps bit_numeral_iff elim!: lessE) 

lemma dvd8: "8 dvd uint ((x::8 word) AND 0xF8)"
proof -
  have "take_bit 3 (uint (x AND 0xF8)) = uint (take_bit 3 (x AND 0xF8))"
    by (simp only: unsigned_take_bit_eq)
  also have "\<dots> = 0" by (simp only: low3) simp
  finally have "uint (x AND 0xF8) mod 2 ^ 3 = 0"
    by (simp only: take_bit_eq_mod)
  then show ?thesis by (simp add: mod_eq_0_iff_dvd)
qed

lemma top_le: "uint (((x::8 word) AND 0x7F) OR 0x40) < 128"
proof -
  have "(x OR 0x40) AND 0x7F = (x AND 0x7F) OR (0x40 AND 0x7F)"
    by (rule word_ao_dist)
  then have "((x AND 0x7F) OR 0x40) = (x OR 0x40) AND 0x7F"
    by simp
  moreover have "(x OR 0x40) AND 0x7F \<le> 0x7F" by (rule word_and_le1)
  ultimately have "((x AND 0x7F) OR 0x40) \<le> 0x7F" by simp
  then have "uint ((x AND 0x7F) OR 0x40) \<le> uint (0x7F :: 8 word)"
    by (simp only: word_le_def)
  then show ?thesis by simp
qed

lemma top_ge: "64 \<le> uint (((x::8 word) AND 0x7F) OR 0x40)"
proof -
  have "0x40 \<le> 0x40 OR (x AND 0x7F)" by (rule le_word_or2)
  then have "uint (0x40 :: 8 word) \<le> uint (0x40 OR (x AND 0x7F))"
    by (simp only: word_le_def)
  then show ?thesis by (simp add: or.commute)
qed


lemma leBufferToBigInt_Nil [simp]: "leBufferToBigInt [] = 0"
  by (simp add: leBufferToBigInt_def)

lemma leBufferToBigInt_Cons [simp]:
  "leBufferToBigInt (b # bs) = uint b + 256 * leBufferToBigInt bs"
  by (simp add: leBufferToBigInt_def)

lemma leBufferToBigInt_append:
  "leBufferToBigInt (xs @ ys) = leBufferToBigInt xs + 256 ^ length xs * leBufferToBigInt ys"
  by (induction xs) (simp_all add: algebra_simps)

lemma leBufferToBigInt_nonneg: "0 \<le> leBufferToBigInt xs"
  by (induction xs) simp_all

lemma leBufferToBigInt_less: "leBufferToBigInt xs < 256 ^ length xs"
proof (induction xs)
  case Nil
  show ?case by simp
next
  case (Cons b bs)
  have "uint b < 256" using uint_bounded [of b] by simp
  with Cons show ?case by simp
qed

lemma pruneBuffer_snoc:
  "pruneBuffer (b0 # mid @ [bl]) = (b0 AND 0xF8) # mid @ [(bl AND 0x7F) OR 0x40]"
  by (simp add: pruneBuffer_def Let_def nth_append)

lemma buffer_split:
  assumes "2 \<le> length (b :: buffer)"
  obtains b0 mid bl where "b = b0 # mid @ [bl]" "length mid = length b - 2"
proof -
  from assms obtain b0 t where b: "b = b0 # t" by (cases b) auto
  with assms have "t \<noteq> []" by auto
  then obtain mid bl where t: "t = mid @ [bl]" by (metis rev_exhaust)
  with b have "length mid = length b - 2" by simp
  with b t that show thesis by blast
qed

lemma length_pruneBuffer [simp]: "length (pruneBuffer b) = length b"
  by (simp add: pruneBuffer_def Let_def)

lemma range_arith:
  fixes a m t :: int
  assumes "0 \<le> a" "a < 256" "0 \<le> m" "m < 256 ^ 30" "64 \<le> t" "t < 128"
  shows "2 ^ 254 \<le> a + 256 * (m + 256 ^ 30 * t)" and "a + 256 * (m + 256 ^ 30 * t) < 2 ^ 255"
  using assms by simp_all

lemma pruned_range:
  assumes "length b = 32"
  shows "2 ^ 254 \<le> leBufferToBigInt (pruneBuffer b)" and "leBufferToBigInt (pruneBuffer b) < 2 ^ 255"
proof -
  from assms have "2 \<le> length b" by simp
  then obtain b0 mid bl where b: "b = b0 # mid @ [bl]" and lm: "length mid = length b - 2"
    by (rule buffer_split)
  have m: "length mid = 30" unfolding lm assms by simp
  let ?t = "(bl AND 0x7F) OR 0x40"
  have v: "leBufferToBigInt (pruneBuffer b) =
      uint (b0 AND 0xF8) + 256 * (leBufferToBigInt mid + 256 ^ 30 * uint ?t)"
    using b m by (simp add: pruneBuffer_snoc leBufferToBigInt_append)
  have lo: "0 \<le> uint (b0 AND 0xF8)" "0 \<le> leBufferToBigInt mid"
    by (simp_all add: leBufferToBigInt_nonneg)
  have hi0: "uint (b0 AND 0xF8) < 256"
    using uint_bounded [of "b0 AND 0xF8"] by simp
  have him: "leBufferToBigInt mid < 256 ^ 30"
    using leBufferToBigInt_less [of mid] m by simp
  have t: "64 \<le> uint ?t" "uint ?t < 128" by (rule top_ge, rule top_le)
  show "2 ^ 254 \<le> leBufferToBigInt (pruneBuffer b)"
    unfolding v by (rule range_arith(1) [OF lo(1) hi0 lo(2) him t])
  show "leBufferToBigInt (pruneBuffer b) < 2 ^ 255"
    unfolding v by (rule range_arith(2) [OF lo(1) hi0 lo(2) him t])
qed

lemma mask_F8: "(b::byte) AND 0xF8 = unset_bit 0 (unset_bit 1 (unset_bit 2 b))"
proof -
  have "unset_bit 0 (unset_bit 1 (unset_bit 2 b)) = b AND (NOT 4 AND (NOT 2 AND NOT 1))"
    by (simp add: unset_bit_eq_and_not and.assoc)
  also have "NOT 4 AND (NOT 2 AND NOT 1) = (0xF8 :: byte)" by simp
  finally show ?thesis by simp
qed

lemma mask_7F: "(b::byte) AND 0x7F = unset_bit 7 b"
proof -
  have "unset_bit 7 b = b AND NOT 128"
    by (simp add: unset_bit_eq_and_not)
  also have "NOT 128 = (0x7F :: byte)" by simp
  finally show ?thesis by simp
qed

lemma mask_40: "(b::byte) OR 0x40 = set_bit 6 b"
  by (simp add: set_bit_eq_or)

lemma prune_byte_cases:
  "prune_byte n i b =
     (if i = 0 \<and> Suc i = n then ((b AND 0xF8) AND 0x7F) OR 0x40
      else if i = 0 then b AND 0xF8
      else if Suc i = n then (b AND 0x7F) OR 0x40
      else b)"
  by (simp add: prune_byte_def Let_def mask_F8 mask_7F mask_40)

lemma pruneBuffer_eq_prune_spec: "pruneBuffer bs = prune_spec bs"
proof (rule nth_equalityI)
  show "length (pruneBuffer bs) = length (prune_spec bs)"
    by (simp add: prune_spec_def)
next
  fix i assume "i < length (pruneBuffer bs)"
  then have i: "i < length bs" by simp
  then have "prune_spec bs ! i = prune_byte (length bs) i (bs ! i)"
    by (simp add: prune_spec_def)
  moreover have "pruneBuffer bs ! i = prune_byte (length bs) i (bs ! i)"
  proof -
    from i have l: "length bs - 1 < length bs" and z: "0 < length bs"
      and e: "Suc i = length bs \<longleftrightarrow> i = length bs - 1"
      by auto
    show ?thesis
      unfolding pruneBuffer_def Let_def prune_byte_cases e
      using i l z by (simp add: nth_list_update)
  qed
  ultimately show "pruneBuffer bs ! i = prune_spec bs ! i" by simp
qed

lemma le_value_Cons: "le_value (b # bs) = uint b + 256 * le_value bs"
proof -
  have "le_value (b # bs) = (\<Sum>i<Suc (length bs). uint ((b # bs) ! i) * 256 ^ i)"
    by (simp add: le_value_def)
  also have "\<dots> = uint b + (\<Sum>i<length bs. uint (bs ! i) * 256 ^ Suc i)"
    by (subst sum.lessThan_Suc_shift) simp
  also have "(\<Sum>i<length bs. uint (bs ! i) * 256 ^ Suc i) = 256 * le_value bs"
    by (simp add: le_value_def sum_distrib_left algebra_simps)
  finally show ?thesis .
qed

lemma leBufferToBigInt_eq_le_value: "leBufferToBigInt bs = le_value bs"
  by (induction bs) (simp_all add: le_value_Cons, simp add: le_value_def)

lemma shiftRight_3: "shiftRight a 3 = a div 2 ^ 3"
  by (simp add: shiftRight_def drop_bit_eq_div)

lemma slice_0: "slice h 0 n = take n h"
  by (simp add: slice_def)

lemma slice_32_64: "slice h 32 64 = take 32 (drop 32 h)"
  by (simp add: slice_def)

lemma leBigIntToBuffer_eq_le_bytes: "leBigIntToBuffer v n = le_bytes n v"
proof -
  have "(word_of_int (drop_bit (8 * i) v) :: byte) = word_of_int ((v div 256 ^ i) mod 256)" for i
  proof -
    have "(2::int) ^ (8 * i) = 256 ^ i" by (simp add: power_mult)
    then have "drop_bit (8 * i) v = v div 256 ^ i" by (simp add: drop_bit_eq_div)
    moreover have "(word_of_int ((v div 256 ^ i) mod 256) :: byte) = word_of_int (v div 256 ^ i)"
      by (simp add: word_of_int_eq_iff take_bit_eq_mod)
    ultimately show ?thesis by simp
  qed
  then show ?thesis by (simp add: leBigIntToBuffer_def le_bytes_def)
qed

lemma pruned_dvd8_any: "8 dvd leBufferToBigInt (pruneBuffer b)"
proof (cases b)
  case Nil
  then show ?thesis by (simp add: pruneBuffer_def)
next
  case (Cons b0 t)
  show ?thesis
  proof (cases t rule: rev_cases)
    case Nil
    have "((b0 AND 0x7F) OR 0x40) AND 0xF8 = ((b0 AND 0x7F) AND 0xF8) OR (0x40 AND 0xF8)"
      by (rule word_ao_dist)
    also have "\<dots> = ((b0 AND 0xF8) AND 0x7F) OR 0x40"
      by (simp add: ac_simps)
    finally have "pruneBuffer b = [((b0 AND 0x7F) OR 0x40) AND 0xF8]"
      using Nil Cons by (simp add: pruneBuffer_def Let_def)
    then show ?thesis
      using dvd8 [of "(b0 AND 0x7F) OR 0x40"] by simp
  next
    case (snoc mid bl)
    with Cons show ?thesis
      using dvd8 [of b0] by (simp add: pruneBuffer_snoc)
  qed
qed

lemma shift_range:
  fixes p :: int
  assumes "2 ^ 254 \<le> p" "p < 2 ^ 255"
  shows "2 ^ 251 \<le> shiftRight p 3" and "shiftRight p 3 < 2 ^ 252"
  using assms by (simp_all add: shiftRight_3)

subsection \<open>The reference instance meets the contracts\<close>

lemma ref_env_simps [simp]:
  "checkPrivateKey ref_env = ref_checkPrivateKey"
  "checkMessage ref_env = ref_checkMessage"
  "isPoint ref_env = ref_isPoint"
  "isSignature ref_env = ref_isSignature"
  "blake ref_env = ref_blake"
  "poseidon5 ref_env = ref_poseidon5"
  "Base8 ref_env = (1, 0)"
  "subOrder ref_env = ref_subOrder"
  "mulPointEscalar ref_env = ref_mulPointEscalar"
  "addPoint ref_env = ref_addPoint"
  "inCurve ref_env = ref_inCurve"
  "Fr_eq ref_env = (=)"
  "packPoint ref_env = ref_packPoint"
  "unpackPoint ref_env = ref_unpackPoint"
  "isStringifiedBigint ref_env = ref_isStringifiedBigint"
  "isHexadecimal ref_env = ref_isHexadecimal"
  by (simp_all add: ref_env_def)

lemma ref_subOrder_pos: "0 < ref_subOrder"
  by (simp add: ref_subOrder_def)

lemma ref_curve_contract: "curve_contract ref_env"
  unfolding curve_contract_def
proof (intro conjI allI impI)
  show "0 < subOrder ref_env" by (simp add: ref_subOrder_pos)
next
  fix a b :: int
  show "mulPointEscalar ref_env (Base8 ref_env) (a + b) =
        addPoint ref_env (mulPointEscalar ref_env (Base8 ref_env) a)
          (mulPointEscalar ref_env (Base8 ref_env) b)"
    by (simp add: ref_mulPointEscalar_def ref_addPoint_def mod_add_eq)
next
  fix a b :: int
  show "mulPointEscalar ref_env (mulPointEscalar ref_env (Base8 ref_env) a) b =
        mulPointEscalar ref_env (Base8 ref_env) (a * b)"
    by (simp add: ref_mulPointEscalar_def mod_mult_left_eq)
next
  fix a :: int
  show "mulPointEscalar ref_env (Base8 ref_env) (a mod subOrder ref_env) =
        mulPointEscalar ref_env (Base8 ref_env) a"
    by (simp add: ref_mulPointEscalar_def)
next
  fix a :: int
  show "inCurve ref_env
         (StringV (toString (fst (mulPointEscalar ref_env (Base8 ref_env) a))),
          StringV (toString (snd (mulPointEscalar ref_env (Base8 ref_env) a))))"
    using ref_subOrder_pos by (simp add: ref_mulPointEscalar_def ref_inCurve_def)
next
  fix x show "Fr_eq ref_env x x" by simp
qed

lemma ref_value_comp: "ref_value = (\<lambda>r. case r of Inl _ \<Rightarrow> 0 | Inr v \<Rightarrow> v) \<circ> BigInt"
  by (rule ext) (simp add: ref_value_def)

lemma ref_poseidon_contract: "poseidon_contract ref_env"
  unfolding poseidon_contract_def
proof (intro conjI allI impI)
  fix xs ys :: "bignumber list"
  assume "map BigInt xs = map BigInt ys"
  then have "map ref_value xs = map ref_value ys"
    unfolding ref_value_comp by (simp only: map_map [symmetric])
  then show "poseidon5 ref_env xs = poseidon5 ref_env ys"
    by (simp add: ref_poseidon5_def)
next
  fix xs show "0 \<le> poseidon5 ref_env xs"
    by (simp add: ref_poseidon5_def ref_prime_def)
qed

lemma ref_shape_contract: "shape_contract ref_env"
  by (simp add: shape_contract_def ref_isPoint_def ref_isSignature_def ref_isBigNumber_def)

lemma ref_blake_contract: "blake_contract ref_env"
  by (auto simp: blake_contract_def ref_blake_def)

subsection \<open>The reference instance on the private key 1 and the message 2\<close>

lemma upt32: "[0..<32] = [0,1,2,3,4,5,6,7,8,9,10,11,12,13,14,15,16,17,18,19,20,21,22,23,24,25,26,27,28,29,30,31]"
  by (simp add: upt_rec)

lemma ref_key1: "leBigIntToBuffer 1 32 =
  [1, 0, 0, 0, 0, 0, 0, 0, 0, 0, 0, 0, 0, 0, 0, 0, 0, 0, 0, 0, 0, 0, 0, 0, 0, 0, 0, 0, 0, 0, 0, 0]"
  unfolding leBigIntToBuffer_def upt32 by (simp add: drop_bit_eq_div)

lemma ref_msg2: "leBigIntToBuffer 2 32 =
  [2, 0, 0, 0, 0, 0, 0, 0, 0, 0, 0, 0, 0, 0, 0, 0, 0, 0, 0, 0, 0, 0, 0, 0, 0, 0, 0, 0, 0, 0, 0, 0]"
  unfolding leBigIntToBuffer_def upt32 by (simp add: drop_bit_eq_div)

lemma ref_digest1: "ref_blake (leBigIntToBuffer 1 32) =
  [1, 0, 0, 0, 0, 0, 0, 0, 0, 0, 0, 0, 0, 0, 0, 0, 0, 0, 0, 0, 0, 0, 0, 0, 0, 0, 0, 0, 0, 0, 0, 0,
   90, 90, 90, 90, 90, 90, 90, 90, 90, 90, 90, 90, 90, 90, 90, 90,
   90, 90, 90, 90, 90, 90, 90, 90, 90, 90, 90, 90, 90, 90, 90, 90]"
  unfolding ref_key1 ref_blake_def by (simp add: numeral_eq_Suc)

lemma ref_low1: "pruneBuffer (slice (ref_blake (leBigIntToBuffer 1 32)) 0 32) =
  [0, 0, 0, 0, 0, 0, 0, 0, 0, 0, 0, 0, 0, 0, 0, 0, 0, 0, 0, 0, 0, 0, 0, 0, 0, 0, 0, 0, 0, 0, 0, 64]"
  unfolding ref_digest1 by (simp add: slice_def pruneBuffer_def Let_def)

lemma ref_high1: "slice (ref_blake (leBigIntToBuffer 1 32)) 32 64 =
  [90, 90, 90, 90, 90, 90, 90, 90, 90, 90, 90, 90, 90, 90, 90, 90,
   90, 90, 90, 90, 90, 90, 90, 90, 90, 90, 90, 90, 90, 90, 90, 90]"
  unfolding ref_digest1 by (simp add: slice_def)

lemma ref_s1: "leBufferToBigInt (pruneBuffer (slice (ref_blake (leBigIntToBuffer 1 32)) 0 32)) =
  28948022309329048855892746252171976963317496166410141009864396001978282409984"
  unfolding ref_low1 by simp

lemma ref_r12: "F1_e ref_subOrder (leBufferToBigInt (ref_blake
    (slice (ref_blake (leBigIntToBuffer 1 32)) 32 64 @ leBigIntToBuffer 2 32))) =
  1584969137027076003691281864059827491971851263691403784961200172958132751143"
  unfolding ref_high1 ref_msg2 by (simp add: ref_blake_def F1_e_def ref_subOrder_def)


lemma ref_trace12: "signMessage_trace ref_env 1 2 =
  Inr \<lparr>tr_s = 28948022309329048855892746252171976963317496166410141009864396001978282409984,
       tr_A = (882472429686221704205792563364337734337873048642700367032833839298837928207, 0),
       tr_r = 1584969137027076003691281864059827491971851263691403784961200172958132751143,
       tr_R8 = (1584969137027076003691281864059827491971851263691403784961200172958132751143, 0),
       tr_hm = 2467441566713297707897074427424165226309724312334104151994034012256970679352,
       tr_S = 244422078449749203520314070784228841412691970501801992125575372064488449371\<rparr>"
proof -
  have k: "ref_checkPrivateKey 1 = Inr (leBigIntToBuffer 1 32)"
    by (simp add: ref_checkPrivateKey_def)
  have m: "ref_checkMessage 2 = Inr 2"
    by (simp add: ref_checkMessage_def ref_prime_def)
  show ?thesis
    unfolding signMessage_trace_def ref_env_simps k m bindE_Inr Let_def ref_s1 ref_r12
    by (simp add: shiftRight_3 ref_mulPointEscalar_def ref_poseidon5_def ref_value_def
        F1_add_def F1_mul_def ref_subOrder_def ref_prime_def)
qed

lemma ref_sign12: "signMessage ref_env 1 2 = Inr ref_signature12"
  by (simp add: signMessage_def ref_trace12 ref_signature12_def)

lemma ref_secret1: "deriveSecretScalar ref_env 1 =
  Inr (toString 3618502788666131106986593281521497120414687020801267626233049500247285301248)"
proof -
  have k: "ref_checkPrivateKey 1 = Inr (leBigIntToBuffer 1 32)"
    by (simp add: ref_checkPrivateKey_def)
  show ?thesis
    unfolding deriveSecretScalar_def ref_env_simps k bindE_Inr Let_def ref_s1
    by (simp add: shiftRight_3)
qed

lemma ref_secret1_old: "deriveSecretScalar_old ref_env 1 =
  Inr 28948022309329048855892746252171976963317496166410141009864396001978282409984"
proof -
  have k: "ref_checkPrivateKey 1 = Inr (leBigIntToBuffer 1 32)"
    by (simp add: ref_checkPrivateKey_def)
  show ?thesis
    unfolding deriveSecretScalar_old_def ref_env_simps k bindE_Inr Let_def leBuff2int_def ref_s1
    by simp
qed

lemma ref_public1: "derivePublicKey ref_env 1 = Inr ref_publicKey1"
  unfolding derivePublicKey_def ref_secret1 bindE_Inr BigInt_toString Let_def ref_env_simps
  by (simp add: ref_mulPointEscalar_def ref_subOrder_def ref_publicKey1_def)

lemma ref_key1_accepted: "checkPrivateKey ref_env 1 = Inr (leBigIntToBuffer 1 32)"
  by (simp add: ref_checkPrivateKey_def)

lemma ref_msg2_accepted: "checkMessage ref_env 2 = Inr 2"
  by (simp add: ref_checkMessage_def ref_prime_def)

subsection \<open>Signing and verifying\<close>

lemma F1_e_range: "0 < l \<Longrightarrow> 0 \<le> F1_e l x \<and> F1_e l x < l"
  by (simp add: F1_e_def)

lemma F1_add_range: "0 < l \<Longrightarrow> 0 \<le> F1_add l a b \<and> F1_add l a b < l"
  by (simp add: F1_add_def)

lemma key_equation:
  assumes cc: "curve_contract env" and r: "0 \<le> r" and hm: "0 \<le> hm" and s: "0 \<le> s"
    and d: "8 dvd s"
  shows "mulPointEscalar env (Base8 env) (F1_add (subOrder env) r (F1_mul (subOrder env) hm s)) =
         addPoint env (mulPointEscalar env (Base8 env) r)
           (mulPointEscalar env (mulPointEscalar env (Base8 env) (shiftRight s 3)) (scalar_mul hm 8))"
proof -
  let ?l = "subOrder env" and ?B = "Base8 env"
  let ?mul = "mulPointEscalar env" and ?add = "addPoint env"
  from cc have l: "0 < ?l"
    and add: "\<And>a b. 0 \<le> a \<Longrightarrow> 0 \<le> b \<Longrightarrow> ?mul ?B (a + b) = ?add (?mul ?B a) (?mul ?B b)"
    and mul: "\<And>a b. 0 \<le> a \<Longrightarrow> 0 \<le> b \<Longrightarrow> ?mul (?mul ?B a) b = ?mul ?B (a * b)"
    and red: "\<And>a. 0 \<le> a \<Longrightarrow> ?mul ?B (a mod ?l) = ?mul ?B a"
    by (simp_all add: curve_contract_def)
  from hm s have hs: "0 \<le> hm * s" by simp
  from l have m: "0 \<le> (hm * s) mod ?l" by simp
  have "?mul ?B (F1_add ?l r (F1_mul ?l hm s)) = ?mul ?B ((r + (hm * s) mod ?l) mod ?l)"
    by (simp add: F1_add_def F1_mul_def)
  also have "\<dots> = ?mul ?B (r + (hm * s) mod ?l)"
    using r m by (intro red) simp
  also have "\<dots> = ?add (?mul ?B r) (?mul ?B ((hm * s) mod ?l))"
    using r m by (rule add)
  also have "?mul ?B ((hm * s) mod ?l) = ?mul ?B (hm * s)"
    using hs by (rule red)
  finally have left: "?mul ?B (F1_add ?l r (F1_mul ?l hm s)) = ?add (?mul ?B r) (?mul ?B (hm * s))" .
  from s have s3: "0 \<le> shiftRight s 3" by (simp add: shiftRight_def)
  from d have "shiftRight s 3 * 8 = s"
    by (auto simp: shiftRight_3)
  then have e: "shiftRight s 3 * (hm * 8) = hm * s"
    by (metis mult.assoc mult.commute)
  from hm s3 have "?mul (?mul ?B (shiftRight s 3)) (hm * 8) = ?mul ?B (shiftRight s 3 * (hm * 8))"
    by (intro mul) simp_all
  then have "?mul (?mul ?B (shiftRight s 3)) (scalar_mul hm 8) = ?mul ?B (hm * s)"
    unfolding e by (simp only: scalar_mul_def)
  with left show ?thesis by simp
qed

lemma trace_fields:
  assumes "signMessage_trace env k m = Inr t"
  obtains kb mv where
    "checkPrivateKey env k = Inr kb" "checkMessage env m = Inr mv"
    "tr_s t = leBufferToBigInt (pruneBuffer (slice (blake env kb) 0 32))"
    "tr_A t = mulPointEscalar env (Base8 env) (shiftRight (tr_s t) 3)"
    "tr_r t = F1_e (subOrder env)
       (leBufferToBigInt (blake env (slice (blake env kb) 32 64 @ leBigIntToBuffer mv 32)))"
    "tr_R8 t = mulPointEscalar env (Base8 env) (tr_r t)"
    "tr_hm t = poseidon5 env [BigIntV (fst (tr_R8 t)), BigIntV (snd (tr_R8 t)),
       BigIntV (fst (tr_A t)), BigIntV (snd (tr_A t)), BigIntV mv]"
    "tr_S t = F1_add (subOrder env) (tr_r t) (F1_mul (subOrder env) (tr_hm t) (tr_s t))"
proof -
  from assms obtain kb where kb: "checkPrivateKey env k = Inr kb"
    by (cases "checkPrivateKey env k") (simp_all add: signMessage_trace_def)
  with assms obtain mv where mv: "checkMessage env m = Inr mv"
    by (cases "checkMessage env m") (simp_all add: signMessage_trace_def)
  from assms kb mv have
    "tr_s t = leBufferToBigInt (pruneBuffer (slice (blake env kb) 0 32))"
    "tr_A t = mulPointEscalar env (Base8 env) (shiftRight (tr_s t) 3)"
    "tr_r t = F1_e (subOrder env)
       (leBufferToBigInt (blake env (slice (blake env kb) 32 64 @ leBigIntToBuffer mv 32)))"
    "tr_R8 t = mulPointEscalar env (Base8 env) (tr_r t)"
    "tr_hm t = poseidon5 env [BigIntV (fst (tr_R8 t)), BigIntV (snd (tr_R8 t)),
       BigIntV (fst (tr_A t)), BigIntV (snd (tr_A t)), BigIntV mv]"
    "tr_S t = F1_add (subOrder env) (tr_r t) (F1_mul (subOrder env) (tr_hm t) (tr_s t))"
    by (auto simp: signMessage_trace_def Let_def)
  with kb mv that show thesis by blast
qed

lemma trace_exists:
  assumes "checkPrivateKey env k = Inr kb" "checkMessage env m = Inr mv"
  shows "\<exists>t. signMessage_trace env k m = Inr t"
  using assms by (simp add: signMessage_trace_def Let_def)

lemma derivePublicKey_value:
  assumes "checkPrivateKey env k = Inr kb"
  shows "derivePublicKey env k =
    Inr (toString (fst (mulPointEscalar env (Base8 env)
           (shiftRight (leBufferToBigInt (pruneBuffer (slice (blake env kb) 0 32))) 3))),
         toString (snd (mulPointEscalar env (Base8 env)
           (shiftRight (leBufferToBigInt (pruneBuffer (slice (blake env kb) 0 32))) 3))))"
  using assms by (simp add: derivePublicKey_def deriveSecretScalar_def Let_def)

lemma verify_honest:
  assumes cc: "curve_contract env" and pc: "poseidon_contract env" and sc: "shape_contract env"
    and mv: "checkMessage env m = Inr mv"
    and r: "0 \<le> r" and s: "0 \<le> s" and d: "8 dvd s"
    and A: "A = mulPointEscalar env (Base8 env) (shiftRight s 3)"
    and R: "R = mulPointEscalar env (Base8 env) r"
    and hm: "hm = poseidon5 env [BigIntV (fst R), BigIntV (snd R), BigIntV (fst A), BigIntV (snd A), BigIntV mv]"
    and Sv: "Sv = F1_add (subOrder env) r (F1_mul (subOrder env) hm s)"
  shows "verifySignature env m
           \<lparr>R8 = (StringV (toString (fst R)), StringV (toString (snd R))), S = StringV (toString Sv)\<rparr>
           (StringV (toString (fst A)), StringV (toString (snd A))) = Inr True"
proof -
  let ?pk = "(StringV (toString (fst A)), StringV (toString (snd A)))"
  let ?R8 = "(StringV (toString (fst R)), StringV (toString (snd R)))"
  let ?sg = "\<lparr>R8 = ?R8, S = StringV (toString Sv)\<rparr>"
  from cc have l: "0 < subOrder env" and refl: "\<And>x. Fr_eq env x x"
    and inc: "\<And>a. 0 \<le> a \<Longrightarrow>
      inCurve env (StringV (toString (fst (mulPointEscalar env (Base8 env) a))),
                   StringV (toString (snd (mulPointEscalar env (Base8 env) a))))"
    by (simp_all add: curve_contract_def)
  from s have s3: "0 \<le> shiftRight s 3" by (simp add: shiftRight_def)
  have g1: "isPoint env ?pk" using sc by (simp add: shape_contract_def)
  have g2: "isSignature env ?sg" using sc by (simp add: shape_contract_def)
  have g3: "inCurve env (R8 ?sg)" using inc [OF r] by (simp add: R)
  have g4: "inCurve env ?pk" using inc [OF s3] by (simp add: A)
  have g5: "\<not> subOrder env \<le> Sv" using F1_add_range [OF l] by (simp add: Sv not_le)
  from pc have hm_nonneg: "0 \<le> hm" by (simp add: hm poseidon_contract_def)
  have "map BigInt [fst ?R8, snd ?R8, fst ?pk, snd ?pk, BigIntV mv] =
        map BigInt [BigIntV (fst R), BigIntV (snd R), BigIntV (fst A), BigIntV (snd A), BigIntV mv]"
    by simp
  with pc have hm': "poseidon5 env [fst ?R8, snd ?R8, fst ?pk, snd ?pk, BigIntV mv] = hm"
    unfolding hm poseidon_contract_def by blast
  have eq: "mulPointEscalar env (Base8 env) Sv =
        addPoint env R (mulPointEscalar env A (scalar_mul hm 8))"
    unfolding Sv R A by (rule key_equation [OF cc r hm_nonneg s d])
  have "verifySignature env m ?sg ?pk =
        Inr (Fr_eq env (fst (mulPointEscalar env (Base8 env) Sv))
                 (fst (addPoint env R (mulPointEscalar env A (scalar_mul hm 8)))) \<and>
             Fr_eq env (snd (mulPointEscalar env (Base8 env) Sv))
                 (snd (addPoint env R (mulPointEscalar env A (scalar_mul hm 8)))))"
    using g1 g2 g3 g4 g5 mv hm' by (simp add: verifySignature_def Let_def)
  with eq refl show ?thesis by simp
qed

section \<open>The claims\<close>

text \<open>
  Claim C1 (round-trip validity). For every private key \<open>k\<close> that \<^verbatim>\<open>checkPrivateKey\<close>
  accepts and every message \<open>m\<close> that \<^verbatim>\<open>checkMessage\<close> accepts, \<^verbatim>\<open>signMessage\<close> and
  \<^verbatim>\<open>derivePublicKey\<close> return, and \<^verbatim>\<open>verifySignature\<close> returns true on the message, the
  signature and the public key they return. The curve library, the Poseidon hash and the
  shape tests are taken to meet their contracts.
\<close>

theorem roundtrip_validity:
  assumes "curve_contract env" "poseidon_contract env" "shape_contract env"
    and "checkPrivateKey env k = Inr kb" and "checkMessage env m = Inr mv"
  shows "\<exists>sg pk. signMessage env k m = Inr sg \<and> derivePublicKey env k = Inr pk \<and>
           verifySignature env m (signatureOfStrings sg) (pointOfStrings pk) = Inr True"
proof -
  from trace_exists [OF assms(4,5)] obtain t where t: "signMessage_trace env k m = Inr t" ..
  then obtain kb' mv' where f: "checkPrivateKey env k = Inr kb'" "checkMessage env m = Inr mv'"
    "tr_s t = leBufferToBigInt (pruneBuffer (slice (blake env kb') 0 32))"
    "tr_A t = mulPointEscalar env (Base8 env) (shiftRight (tr_s t) 3)"
    "tr_r t = F1_e (subOrder env)
       (leBufferToBigInt (blake env (slice (blake env kb') 32 64 @ leBigIntToBuffer mv' 32)))"
    "tr_R8 t = mulPointEscalar env (Base8 env) (tr_r t)"
    "tr_hm t = poseidon5 env [BigIntV (fst (tr_R8 t)), BigIntV (snd (tr_R8 t)),
       BigIntV (fst (tr_A t)), BigIntV (snd (tr_A t)), BigIntV mv']"
    "tr_S t = F1_add (subOrder env) (tr_r t) (F1_mul (subOrder env) (tr_hm t) (tr_s t))"
    by (rule trace_fields)
  from f(1,2) assms(4,5) have [simp]: "kb' = kb" "mv' = mv" by simp_all
  from assms(1) have l: "0 < subOrder env" by (simp add: curve_contract_def)
  have r: "0 \<le> tr_r t" unfolding f(5) using F1_e_range [OF l] by blast
  have s: "0 \<le> tr_s t" unfolding f(3) by (rule leBufferToBigInt_nonneg)
  have d: "8 dvd tr_s t" unfolding f(3) by (rule pruned_dvd8_any)
  let ?sg = "\<lparr>R8 = (toString (fst (tr_R8 t)), toString (snd (tr_R8 t))), S = toString (tr_S t)\<rparr>"
  let ?pk = "(toString (fst (tr_A t)), toString (snd (tr_A t)))"
  have 1: "signMessage env k m = Inr ?sg"
    using t by (simp add: signMessage_def)
  have 2: "derivePublicKey env k = Inr ?pk"
    using derivePublicKey_value [OF assms(4)] f(3,4) by simp
  have 3: "verifySignature env m (signatureOfStrings ?sg) (pointOfStrings ?pk) = Inr True"
    unfolding signatureOfStrings_def pointOfStrings_def
    using verify_honest [OF assms(1,2,3) f(2) r s d f(4) f(6) f(7) f(8)] by simp
  from 1 2 3 show ?thesis by blast
qed

theorem roundtrip_validity_witness:
  "curve_contract ref_env \<and> poseidon_contract ref_env \<and> shape_contract ref_env \<and>
   checkPrivateKey ref_env 1 = Inr (leBigIntToBuffer 1 32) \<and> checkMessage ref_env 2 = Inr 2 \<and>
   signMessage ref_env 1 2 = Inr ref_signature12 \<and>
   derivePublicKey ref_env 1 = Inr ref_publicKey1 \<and>
   verifySignature ref_env 2 (signatureOfStrings ref_signature12) (pointOfStrings ref_publicKey1) =
     Inr True"
proof -
  from roundtrip_validity [OF ref_curve_contract ref_poseidon_contract ref_shape_contract
      ref_key1_accepted ref_msg2_accepted]
  have "verifySignature ref_env 2 (signatureOfStrings ref_signature12)
          (pointOfStrings ref_publicKey1) = Inr True"
    by (simp add: ref_sign12 ref_public1)
  with ref_curve_contract ref_poseidon_contract ref_shape_contract
    ref_key1_accepted ref_msg2_accepted ref_sign12 ref_public1
  show ?thesis by simp
qed

text \<open>
  Claim C2, as the code has it. \<^verbatim>\<open>verifySignature\<close> returns false, and raises nothing,
  when the public key or the signature fails its shape test, when \<open>R8\<close> or the public key
  fails the membership test, or when \<open>S\<close> is at least the subgroup order. The message is
  normalised after these checks, by a call of \<^verbatim>\<open>checkMessage\<close> that no handler
  encloses: when the checks pass and \<^verbatim>\<open>checkMessage\<close> rejects the message,
  \<^verbatim>\<open>verifySignature\<close> raises the error of \<^verbatim>\<open>checkMessage\<close>; when it accepts the message
  and the coordinates convert to integers, \<^verbatim>\<open>verifySignature\<close> returns a boolean.
\<close>

theorem verifySignature_failure_modes:
  "(\<not> isPoint env pk \<or> \<not> isSignature env sg \<or> \<not> inCurve env (R8 sg) \<or> \<not> inCurve env pk
      \<longrightarrow> verifySignature env m sg pk = Inr False) \<and>
   (BigInt (S sg) = Inr v \<and> subOrder env \<le> v \<longrightarrow> verifySignature env m sg pk = Inr False) \<and>
   (isPoint env pk \<and> isSignature env sg \<and> inCurve env (R8 sg) \<and> inCurve env pk \<and>
    BigInt (S sg) = Inr v \<and> v < subOrder env \<and> checkMessage env m = Inl e
      \<longrightarrow> verifySignature env m sg pk = Inl e) \<and>
   (BigInt (S sg) = Inr v \<and> checkMessage env m = Inr mv \<and>
    BigInt (fst (R8 sg)) = Inr r0 \<and> BigInt (snd (R8 sg)) = Inr r1 \<and>
    BigInt (fst pk) = Inr p0 \<and> BigInt (snd pk) = Inr p1
      \<longrightarrow> (\<exists>b. verifySignature env m sg pk = Inr b))"
proof (intro conjI impI)
  assume "\<not> isPoint env pk \<or> \<not> isSignature env sg \<or> \<not> inCurve env (R8 sg) \<or> \<not> inCurve env pk"
  then show "verifySignature env m sg pk = Inr False"
    unfolding verifySignature_def by (elim disjE) simp_all
next
  assume "BigInt (S sg) = Inr v \<and> subOrder env \<le> v"
  then show "verifySignature env m sg pk = Inr False"
    by (simp add: verifySignature_def)
next
  assume "isPoint env pk \<and> isSignature env sg \<and> inCurve env (R8 sg) \<and> inCurve env pk \<and>
    BigInt (S sg) = Inr v \<and> v < subOrder env \<and> checkMessage env m = Inl e"
  then show "verifySignature env m sg pk = Inl e"
    by (simp add: verifySignature_def)
next
  assume "BigInt (S sg) = Inr v \<and> checkMessage env m = Inr mv \<and>
    BigInt (fst (R8 sg)) = Inr r0 \<and> BigInt (snd (R8 sg)) = Inr r1 \<and>
    BigInt (fst pk) = Inr p0 \<and> BigInt (snd pk) = Inr p1"
  then show "\<exists>b. verifySignature env m sg pk = Inr b"
    by (auto simp: verifySignature_def Let_def)
qed

theorem verifySignature_failure_modes_witness:
  "\<not> isPoint ref_env (StringV ''abc'', StringV (toString 0)) \<and>
   verifySignature ref_env 2 (signatureOfStrings ref_signature12)
     (StringV ''abc'', StringV (toString 0)) = Inr False \<and>
   subOrder ref_env \<le> ref_subOrder + 7 \<and>
   verifySignature ref_env 2
     ((signatureOfStrings ref_signature12)\<lparr>S := BigIntV (ref_subOrder + 7)\<rparr>)
     (pointOfStrings ref_publicKey1) = Inr False \<and>
   checkMessage ref_env (- 1) = Inl InvalidMessage \<and>
   verifySignature ref_env (- 1) (signatureOfStrings ref_signature12)
     (pointOfStrings ref_publicKey1) = Inl InvalidMessage \<and>
   (\<exists>b. verifySignature ref_env 2 (signatureOfStrings ref_signature12)
     (pointOfStrings ref_publicKey1) = Inr b)"
proof -
  let ?sg = "signatureOfStrings ref_signature12" and ?pk = "pointOfStrings ref_publicKey1"
  let ?big = "?sg\<lparr>S := BigIntV (ref_subOrder + 7)\<rparr>"
  let ?bad = "(StringV ''abc'', StringV (toString 0))"
  let ?Sv = "244422078449749203520314070784228841412691970501801992125575372064488449371 :: int"
  have abc: "StringToBigInt ''abc'' = None"
    by (simp add: StringToBigInt_def trim_def is_ws_def parse_digits_def digit_val_def)
  have a: "\<not> isPoint ref_env ?bad"
    by (simp add: ref_isPoint_def ref_isBigNumber_def BigInt_def abc)
  have g: "isPoint ref_env ?pk" "isSignature ref_env ?sg" "inCurve ref_env (R8 ?sg)"
    "inCurve ref_env ?pk"
    by (simp_all add: signatureOfStrings_def pointOfStrings_def ref_signature12_def
        ref_publicKey1_def ref_isPoint_def ref_isSignature_def ref_isBigNumber_def
        ref_inCurve_def ref_subOrder_def)
  have c: "BigInt (S ?sg) = Inr ?Sv" "?Sv < subOrder ref_env"
    "BigInt (fst (R8 ?sg)) =
       Inr 1584969137027076003691281864059827491971851263691403784961200172958132751143"
    "BigInt (snd (R8 ?sg)) = Inr 0"
    "BigInt (fst ?pk) =
       Inr 882472429686221704205792563364337734337873048642700367032833839298837928207"
    "BigInt (snd ?pk) = Inr 0"
    by (simp_all add: signatureOfStrings_def pointOfStrings_def ref_signature12_def
        ref_publicKey1_def ref_subOrder_def)
  have big: "BigInt (S ?big) = Inr (ref_subOrder + 7)" "subOrder ref_env \<le> ref_subOrder + 7"
    by simp_all
  have e: "checkMessage ref_env (- 1) = Inl InvalidMessage"
    by (simp add: ref_checkMessage_def)
  from verifySignature_failure_modes [of ref_env ?bad ?sg 2] a
  have 1: "verifySignature ref_env 2 ?sg ?bad = Inr False" by blast
  from verifySignature_failure_modes [of ref_env ?pk ?big 2 "ref_subOrder + 7"] big
  have 2: "verifySignature ref_env 2 ?big ?pk = Inr False" by blast
  from verifySignature_failure_modes [of ref_env ?pk ?sg "- 1" ?Sv InvalidMessage] g c(1,2) e
  have 3: "verifySignature ref_env (- 1) ?sg ?pk = Inl InvalidMessage" by blast
  from verifySignature_failure_modes [of ref_env ?pk ?sg 2 ?Sv _ 2] c ref_msg2_accepted
  have 4: "\<exists>b. verifySignature ref_env 2 ?sg ?pk = Inr b" by blast
  from a 1 big(2) 2 e 3 4 show ?thesis by blast
qed

text \<open>
  Claim C2 as stated fails: on the signature and the public key that the reference
  instance produces for the private key 1 and the message 2, with a message that
  \<^verbatim>\<open>checkMessage\<close> rejects, \<^verbatim>\<open>verifySignature\<close> raises instead of returning false.
\<close>

theorem verifySignature_throws_counterexample:
  "signMessage ref_env 1 2 = Inr ref_signature12 \<and>
   derivePublicKey ref_env 1 = Inr ref_publicKey1 \<and>
   checkMessage ref_env (- 1) = Inl InvalidMessage \<and>
   verifySignature ref_env (- 1) (signatureOfStrings ref_signature12)
     (pointOfStrings ref_publicKey1) = Inl InvalidMessage"
proof -
  have "verifySignature ref_env (- 1) (signatureOfStrings ref_signature12)
     (pointOfStrings ref_publicKey1) = Inl InvalidMessage"
    by (simp add: verifySignature_def signatureOfStrings_def pointOfStrings_def
        ref_signature12_def ref_publicKey1_def ref_isPoint_def ref_isSignature_def
        ref_isBigNumber_def ref_inCurve_def ref_subOrder_def ref_checkMessage_def)
  moreover have "checkMessage ref_env (- 1) = Inl InvalidMessage"
    by (simp add: ref_checkMessage_def)
  ultimately show ?thesis
    using ref_sign12 ref_public1 by simp
qed

text \<open>
  Claim C3, as the code has it. For every signature whose \<open>S\<close> converts to an integer that
  is at least the subgroup order, \<^verbatim>\<open>verifySignature\<close> returns false and raises nothing,
  whatever the message and the public key.
\<close>

theorem range_rejection:
  assumes "BigInt (S sg) = Inr v" and "subOrder env \<le> v"
  shows "verifySignature env m sg pk = Inr False"
proof (cases "isPoint env pk \<and> isSignature env sg \<and> inCurve env (R8 sg) \<and> inCurve env pk")
  case True
  with assms show ?thesis by (simp add: verifySignature_def)
next
  case False
  then show ?thesis by (auto simp: verifySignature_def)
qed

theorem range_rejection_witness:
  "BigInt (S ((signatureOfStrings ref_signature12)
      \<lparr>S := StringV (toString
        2980452437429658606301114788941388227489505942660369251325791033012935822412)\<rparr>)) =
     Inr 2980452437429658606301114788941388227489505942660369251325791033012935822412 \<and>
   subOrder ref_env \<le> 2980452437429658606301114788941388227489505942660369251325791033012935822412 \<and>
   verifySignature ref_env 2
     ((signatureOfStrings ref_signature12)
      \<lparr>S := StringV (toString
        2980452437429658606301114788941388227489505942660369251325791033012935822412)\<rparr>)
     (pointOfStrings ref_publicKey1) = Inr False"
proof -
  let ?v = "2980452437429658606301114788941388227489505942660369251325791033012935822412 :: int"
  let ?sg = "(signatureOfStrings ref_signature12)\<lparr>S := StringV (toString ?v)\<rparr>"
  have b: "BigInt (S ?sg) = Inr ?v" by simp
  have l: "subOrder ref_env \<le> ?v" by (simp add: ref_subOrder_def)
  from range_rejection [OF b l, of 2 "pointOfStrings ref_publicKey1"] b l
  show ?thesis by simp
qed

text \<open>
  Claim C3 as stated fails for a negative \<open>S\<close>: the range check compares \<open>S\<close> with the
  subgroup order only, so a negative \<open>S\<close> reaches the curve equation. In the reference
  instance, whose scalar multiplication is defined for every integer, the signature of
  the message 2 under the private key 1 is still accepted after the subgroup order is
  subtracted from its \<open>S\<close>.
\<close>

theorem negative_S_counterexample:
  "signMessage ref_env 1 2 = Inr ref_signature12 \<and>
   derivePublicKey ref_env 1 = Inr ref_publicKey1 \<and>
   244422078449749203520314070784228841412691970501801992125575372064488449371 - subOrder ref_env =
     - 2491608280530160199260486647372930544664122001656765267074640288883958923670 \<and>
   verifySignature ref_env 2
     ((signatureOfStrings ref_signature12)
      \<lparr>S := StringV (toString
        (- 2491608280530160199260486647372930544664122001656765267074640288883958923670))\<rparr>)
     (pointOfStrings ref_publicKey1) = Inr True"
proof -
  have "verifySignature ref_env 2
     ((signatureOfStrings ref_signature12)
      \<lparr>S := StringV (toString
        (- 2491608280530160199260486647372930544664122001656765267074640288883958923670))\<rparr>)
     (pointOfStrings ref_publicKey1) = Inr True"
    by (simp add: verifySignature_def signatureOfStrings_def pointOfStrings_def
        ref_signature12_def ref_publicKey1_def ref_isPoint_def ref_isSignature_def
        ref_isBigNumber_def ref_inCurve_def ref_subOrder_def ref_checkMessage_def ref_prime_def
        ref_poseidon5_def ref_value_def ref_mulPointEscalar_def ref_addPoint_def scalar_mul_def)
  moreover have
    "244422078449749203520314070784228841412691970501801992125575372064488449371 - subOrder ref_env =
     - 2491608280530160199260486647372930544664122001656765267074640288883958923670"
    by (simp add: ref_subOrder_def)
  ultimately show ?thesis
    using ref_sign12 ref_public1 by simp
qed

text \<open>
  Claim C4 (secret scalar). For every private key that \<^verbatim>\<open>checkPrivateKey\<close> accepts,
  \<^verbatim>\<open>deriveSecretScalar\<close> returns, as a decimal string, the value the specification
  describes: hash the key bytes, take the low 32 bytes of the digest, clear the lowest 3
  bits of the first byte, clear the top bit and set the second-highest bit of the last
  byte, read the bytes as a little-endian integer, and shift it right by 3 bits. The
  result is a function of the private key alone.
\<close>

theorem deriveSecretScalar_refines_spec:
  assumes "checkPrivateKey env k = Inr kb"
  shows "deriveSecretScalar env k = Inr (toString (secretScalar_spec (blake env kb)))"
proof -
  have "shiftRight (leBufferToBigInt (pruneBuffer (slice (blake env kb) 0 32))) 3 =
        secretScalar_spec (blake env kb)"
    by (simp add: secretScalar_spec_def slice_0 shiftRight_3 pruneBuffer_eq_prune_spec
        leBufferToBigInt_eq_le_value)
  with assms show ?thesis
    by (simp add: deriveSecretScalar_def Let_def)
qed

theorem deriveSecretScalar_refines_spec_witness:
  "checkPrivateKey ref_env 1 = Inr (leBigIntToBuffer 1 32) \<and>
   secretScalar_spec (blake ref_env (leBigIntToBuffer 1 32)) =
     3618502788666131106986593281521497120414687020801267626233049500247285301248 \<and>
   deriveSecretScalar ref_env 1 =
     Inr (toString 3618502788666131106986593281521497120414687020801267626233049500247285301248)"
proof -
  from deriveSecretScalar_refines_spec [OF ref_key1_accepted] ref_secret1
  have "toString (secretScalar_spec (blake ref_env (leBigIntToBuffer 1 32))) =
        toString 3618502788666131106986593281521497120414687020801267626233049500247285301248"
    by simp
  then have "secretScalar_spec (blake ref_env (leBigIntToBuffer 1 32)) =
        3618502788666131106986593281521497120414687020801267626233049500247285301248"
    by (rule toString_inj)
  with ref_key1_accepted ref_secret1 show ?thesis by simp
qed

text \<open>
  Claim C5 (nonce). For every accepted private key and message, the nonce \<open>r\<close> that
  \<^verbatim>\<open>signMessage\<close> computes is the hash of the high 32 bytes of the digest of the key
  followed by the message as 32 little-endian bytes, read as an integer and reduced modulo
  the subgroup order; the commitment \<open>R8\<close> of the returned signature is the multiple of
  the base point by that nonce.
\<close>

theorem nonce_derivation:
  assumes "checkPrivateKey env k = Inr kb" and "checkMessage env m = Inr mv"
  shows "\<exists>t sg. signMessage_trace env k m = Inr t \<and> signMessage env k m = Inr sg \<and>
           tr_r t = nonce_spec env (blake env kb) mv \<and>
           tr_R8 t = mulPointEscalar env (Base8 env) (nonce_spec env (blake env kb) mv) \<and>
           R8 sg = (toString (fst (tr_R8 t)), toString (snd (tr_R8 t)))"
proof -
  from trace_exists [OF assms] obtain t where t: "signMessage_trace env k m = Inr t" ..
  then obtain kb' mv' where "checkPrivateKey env k = Inr kb'" "checkMessage env m = Inr mv'"
    and r: "tr_r t = F1_e (subOrder env)
       (leBufferToBigInt (blake env (slice (blake env kb') 32 64 @ leBigIntToBuffer mv' 32)))"
    and R: "tr_R8 t = mulPointEscalar env (Base8 env) (tr_r t)"
    by (rule trace_fields)
  with assms have "kb' = kb" "mv' = mv" by simp_all
  with r have "tr_r t = nonce_spec env (blake env kb) mv"
    by (simp add: nonce_spec_def F1_e_def slice_32_64 leBufferToBigInt_eq_le_value
        leBigIntToBuffer_eq_le_bytes)
  moreover from t have "signMessage env k m =
    Inr \<lparr>R8 = (toString (fst (tr_R8 t)), toString (snd (tr_R8 t))), S = toString (tr_S t)\<rparr>"
    by (simp add: signMessage_def)
  ultimately show ?thesis using t R by simp
qed

theorem nonce_derivation_witness:
  "checkPrivateKey ref_env 1 = Inr (leBigIntToBuffer 1 32) \<and> checkMessage ref_env 2 = Inr 2 \<and>
   nonce_spec ref_env (blake ref_env (leBigIntToBuffer 1 32)) 2 =
     1584969137027076003691281864059827491971851263691403784961200172958132751143 \<and>
   signMessage ref_env 1 2 = Inr ref_signature12 \<and>
   R8 ref_signature12 =
     (toString 1584969137027076003691281864059827491971851263691403784961200172958132751143,
      toString 0)"
proof -
  from nonce_derivation [OF ref_key1_accepted ref_msg2_accepted]
  obtain t where "signMessage_trace ref_env 1 2 = Inr t"
    and "tr_r t = nonce_spec ref_env (blake ref_env (leBigIntToBuffer 1 32)) 2"
    by blast
  with ref_trace12 have "nonce_spec ref_env (blake ref_env (leBigIntToBuffer 1 32)) 2 =
     1584969137027076003691281864059827491971851263691403784961200172958132751143"
    by auto
  with ref_key1_accepted ref_msg2_accepted ref_sign12 show ?thesis
    by (simp add: ref_signature12_def)
qed

text \<open>
  Claim C6 (derivation stability). For every accepted private key \<open>k\<close> and message, the
  public point \<open>A\<close> that \<^verbatim>\<open>signMessage\<close> computes is the point that
  \<^verbatim>\<open>derivePublicKey(k)\<close> returns: the coordinates returned are the decimal strings of
  the coordinates of \<open>A\<close>, and converting them back gives \<open>A\<close>.
\<close>

theorem derivation_stability:
  assumes "checkPrivateKey env k = Inr kb" and "checkMessage env m = Inr mv"
  shows "\<exists>t pk. signMessage_trace env k m = Inr t \<and> derivePublicKey env k = Inr pk \<and>
           pk = (toString (fst (tr_A t)), toString (snd (tr_A t))) \<and>
           BigInt (StringV (fst pk)) = Inr (fst (tr_A t)) \<and>
           BigInt (StringV (snd pk)) = Inr (snd (tr_A t))"
proof -
  from trace_exists [OF assms] obtain t where t: "signMessage_trace env k m = Inr t" ..
  then obtain kb' where "checkPrivateKey env k = Inr kb'"
    and s: "tr_s t = leBufferToBigInt (pruneBuffer (slice (blake env kb') 0 32))"
    and A: "tr_A t = mulPointEscalar env (Base8 env) (shiftRight (tr_s t) 3)"
    by (rule trace_fields)
  with assms(1) have "kb' = kb" by simp
  with s A derivePublicKey_value [OF assms(1)]
  have "derivePublicKey env k = Inr (toString (fst (tr_A t)), toString (snd (tr_A t)))"
    by simp
  with t show ?thesis by simp
qed

theorem derivation_stability_witness:
  "checkPrivateKey ref_env 1 = Inr (leBigIntToBuffer 1 32) \<and> checkMessage ref_env 2 = Inr 2 \<and>
   (\<exists>t. signMessage_trace ref_env 1 2 = Inr t \<and>
        tr_A t = (882472429686221704205792563364337734337873048642700367032833839298837928207, 0)) \<and>
   derivePublicKey ref_env 1 =
     Inr (toString 882472429686221704205792563364337734337873048642700367032833839298837928207,
          toString 0)"
proof -
  from derivation_stability [OF ref_key1_accepted ref_msg2_accepted]
  obtain t where t: "signMessage_trace ref_env 1 2 = Inr t"
    and pk: "derivePublicKey ref_env 1 = Inr (toString (fst (tr_A t)), toString (snd (tr_A t)))"
    by blast
  from t ref_trace12
  have A: "tr_A t = (882472429686221704205792563364337734337873048642700367032833839298837928207, 0)"
    by auto
  with pk have "derivePublicKey ref_env 1 =
     Inr (toString 882472429686221704205792563364337734337873048642700367032833839298837928207,
          toString 0)"
    by simp
  with t A ref_key1_accepted ref_msg2_accepted show ?thesis by blast
qed

text \<open>
  Claim C7 (pack and unpack). For a point \<open>P\<close> that passes the shape test and the
  membership test, with coordinates \<open>x\<close> and \<open>y\<close>, \<^verbatim>\<open>packPublicKey\<close> returns and
  \<^verbatim>\<open>unpackPublicKey\<close> of its result returns the decimal strings of \<open>x\<close> and \<open>y\<close>, which
  convert to the coordinates of \<open>P\<close>; here the library's codec is taken to decode \<open>P\<close>
  from its own encoding and the string test to accept the decimal string of the encoding.
  On any \<open>Q\<close> that fails the shape test or the membership test, \<^verbatim>\<open>packPublicKey\<close>
  fails with "Invalid public key".
\<close>

theorem pack_unpack_identity:
  "(isPoint env P \<and> inCurve env P \<and> BigInt (fst P) = Inr x \<and> BigInt (snd P) = Inr y \<and>
    unpackPoint env (packPoint env (x, y)) = Some (x, y) \<and>
    isStringifiedBigint env (toString (packPoint env (x, y)))
      \<longrightarrow> (\<exists>s P'. packPublicKey env P = Inr s \<and> unpackPublicKey env (StringV s) = Inr P' \<and>
             P' = (toString x, toString y) \<and>
             BigInt (StringV (fst P')) = BigInt (fst P) \<and>
             BigInt (StringV (snd P')) = BigInt (snd P))) \<and>
   (\<not> (isPoint env Q \<and> inCurve env Q) \<longrightarrow> packPublicKey env Q = Inl InvalidPublicKey)"
proof (intro conjI impI)
  assume h: "isPoint env P \<and> inCurve env P \<and> BigInt (fst P) = Inr x \<and> BigInt (snd P) = Inr y \<and>
    unpackPoint env (packPoint env (x, y)) = Some (x, y) \<and>
    isStringifiedBigint env (toString (packPoint env (x, y)))"
  let ?s = "toString (packPoint env (x, y))"
  from h have pack: "packPublicKey env P = Inr ?s"
    by (simp add: packPublicKey_def)
  from h have unpack: "unpackPublicKey env (StringV ?s) = Inr (toString x, toString y)"
    by (simp add: unpackPublicKey_def)
  from h pack unpack show "\<exists>s P'. packPublicKey env P = Inr s \<and>
      unpackPublicKey env (StringV s) = Inr P' \<and> P' = (toString x, toString y) \<and>
      BigInt (StringV (fst P')) = BigInt (fst P) \<and> BigInt (StringV (snd P')) = BigInt (snd P)"
    by simp
next
  assume "\<not> (isPoint env Q \<and> inCurve env Q)"
  then show "packPublicKey env Q = Inl InvalidPublicKey"
    by (auto simp: packPublicKey_def)
qed

theorem pack_unpack_identity_witness:
  "isPoint ref_env (pointOfStrings ref_publicKey1) \<and>
   inCurve ref_env (pointOfStrings ref_publicKey1) \<and>
   (\<exists>s. packPublicKey ref_env (pointOfStrings ref_publicKey1) = Inr s \<and>
        unpackPublicKey ref_env (StringV s) = Inr ref_publicKey1) \<and>
   \<not> inCurve ref_env (BigIntV (- 1), BigIntV 0) \<and>
   packPublicKey ref_env (BigIntV (- 1), BigIntV 0) = Inl InvalidPublicKey"
proof -
  let ?P = "pointOfStrings ref_publicKey1" and ?Q = "(BigIntV (- 1), BigIntV 0)"
  let ?x = "882472429686221704205792563364337734337873048642700367032833839298837928207 :: int"
  have h: "isPoint ref_env ?P" "inCurve ref_env ?P"
    "BigInt (fst ?P) = Inr ?x" "BigInt (snd ?P) = Inr 0"
    "unpackPoint ref_env (packPoint ref_env (?x, 0)) = Some (?x, 0)"
    "isStringifiedBigint ref_env (toString (packPoint ref_env (?x, 0)))"
    by (simp_all add: pointOfStrings_def ref_publicKey1_def ref_isPoint_def ref_isBigNumber_def
        ref_inCurve_def ref_subOrder_def ref_packPoint_def ref_unpackPoint_def
        ref_isStringifiedBigint_def)
  have q: "\<not> inCurve ref_env ?Q"
    by (simp add: ref_inCurve_def)
  from pack_unpack_identity [of ref_env ?P ?x 0 ?Q] h q
  have "\<exists>s P'. packPublicKey ref_env ?P = Inr s \<and> unpackPublicKey ref_env (StringV s) = Inr P' \<and>
             P' = (toString ?x, toString 0)"
    and "packPublicKey ref_env ?Q = Inl InvalidPublicKey"
    by blast+
  with h(1,2) q show ?thesis by (simp add: ref_publicKey1_def)
qed

text \<open>
  Claim C8, as the code has it. Linked with the same collaborators, the older and the
  newer variant return the same results from \<^verbatim>\<open>derivePublicKey\<close>, \<^verbatim>\<open>signMessage\<close> and
  \<^verbatim>\<open>verifySignature\<close> on every input. \<^verbatim>\<open>deriveSecretScalar\<close> differs: the newer
  variant returns, as a decimal string, the scalar of the older variant shifted right by 3
  bits, and fails where the older variant fails.
\<close>

theorem variants_agree:
  "derivePublicKey_old env k = derivePublicKey env k \<and>
   signMessage_old env k m = signMessage env k m \<and>
   verifySignature_old env m sg pk = verifySignature env m sg pk \<and>
   deriveSecretScalar env k =
     bindE (deriveSecretScalar_old env k) (\<lambda>s. Inr (toString (shiftRight s 3)))"
proof (intro conjI)
  show "derivePublicKey_old env k = derivePublicKey env k"
    by (cases "checkPrivateKey env k")
      (simp_all add: derivePublicKey_old_def derivePublicKey_def deriveSecretScalar_old_def
        deriveSecretScalar_def leBuff2int_def Let_def)
  show "signMessage_old env k m = signMessage env k m"
    by (cases "checkPrivateKey env k"; cases "checkMessage env m")
      (simp_all add: signMessage_old_def signMessage_def signMessage_trace_def leBuff2int_def
        leInt2Buff_def Let_def)
  show "verifySignature_old env m sg pk = verifySignature env m sg pk"
    by (simp add: verifySignature_old_def verifySignature_def)
  show "deriveSecretScalar env k =
     bindE (deriveSecretScalar_old env k) (\<lambda>s. Inr (toString (shiftRight s 3)))"
    by (cases "checkPrivateKey env k")
      (simp_all add: deriveSecretScalar_old_def deriveSecretScalar_def leBuff2int_def Let_def)
qed

text \<open>
  Claim C8 as stated fails for \<^verbatim>\<open>deriveSecretScalar\<close>: on the private key 1 in the
  reference instance the older variant returns \<open>2 ^ 254\<close> and the newer variant the
  decimal string of \<open>2 ^ 251\<close>.
\<close>

theorem variants_differ_counterexample:
  "deriveSecretScalar_old ref_env 1 =
     Inr 28948022309329048855892746252171976963317496166410141009864396001978282409984 \<and>
   deriveSecretScalar ref_env 1 =
     Inr (toString 3618502788666131106986593281521497120414687020801267626233049500247285301248) \<and>
   toString 28948022309329048855892746252171976963317496166410141009864396001978282409984 \<noteq>
   toString 3618502788666131106986593281521497120414687020801267626233049500247285301248"
proof -
  have "toString 28948022309329048855892746252171976963317496166410141009864396001978282409984 \<noteq>
    toString 3618502788666131106986593281521497120414687020801267626233049500247285301248"
    using toString_inj by fastforce
  with ref_secret1_old ref_secret1 show ?thesis by simp
qed

text \<open>
  Claim C9 (range of the response). With a positive subgroup order, for every accepted
  private key and message the \<open>S\<close> of the signature that \<^verbatim>\<open>signMessage\<close> returns is the
  decimal string of an integer \<open>v\<close> with \<open>0 \<le> v < subOrder\<close>, so the range check of
  \<^verbatim>\<open>verifySignature\<close>, which rejects \<open>subOrder \<le> v\<close>, lets it pass.
\<close>

theorem response_in_range:
  assumes "0 < subOrder env"
    and "checkPrivateKey env k = Inr kb" and "checkMessage env m = Inr mv"
  shows "\<exists>sg v. signMessage env k m = Inr sg \<and> BigInt (StringV (S sg)) = Inr v \<and>
           0 \<le> v \<and> v < subOrder env \<and> \<not> subOrder env \<le> v"
proof -
  from trace_exists [OF assms(2,3)] obtain t where t: "signMessage_trace env k m = Inr t" ..
  then obtain "tr_S t = F1_add (subOrder env) (tr_r t) (F1_mul (subOrder env) (tr_hm t) (tr_s t))"
    by (rule trace_fields)
  with F1_add_range [OF assms(1)] have "0 \<le> tr_S t \<and> tr_S t < subOrder env" by simp
  moreover from t have "signMessage env k m =
    Inr \<lparr>R8 = (toString (fst (tr_R8 t)), toString (snd (tr_R8 t))), S = toString (tr_S t)\<rparr>"
    by (simp add: signMessage_def)
  ultimately show ?thesis by simp
qed

theorem response_in_range_witness:
  "0 < subOrder ref_env \<and>
   checkPrivateKey ref_env 1 = Inr (leBigIntToBuffer 1 32) \<and> checkMessage ref_env 2 = Inr 2 \<and>
   signMessage ref_env 1 2 = Inr ref_signature12 \<and>
   BigInt (StringV (S ref_signature12)) =
     Inr 244422078449749203520314070784228841412691970501801992125575372064488449371 \<and>
   (0::int) \<le> 244422078449749203520314070784228841412691970501801992125575372064488449371 \<and>
   244422078449749203520314070784228841412691970501801992125575372064488449371 < subOrder ref_env"
proof -
  have l: "0 < subOrder ref_env" by (simp add: ref_subOrder_pos)
  from response_in_range [OF l ref_key1_accepted ref_msg2_accepted]
  obtain sg v where "signMessage ref_env 1 2 = Inr sg" and "BigInt (StringV (S sg)) = Inr v"
    and "0 \<le> v" and "v < subOrder ref_env"
    by blast
  with ref_sign12 have
    "BigInt (StringV (S ref_signature12)) =
       Inr 244422078449749203520314070784228841412691970501801992125575372064488449371"
    "(0::int) \<le> 244422078449749203520314070784228841412691970501801992125575372064488449371"
    "244422078449749203520314070784228841412691970501801992125575372064488449371 < subOrder ref_env"
    by (auto simp: ref_signature12_def)
  with l ref_key1_accepted ref_msg2_accepted ref_sign12 show ?thesis by blast
qed

text \<open>
  Claim C10 (range of the secret scalar). With a 64-byte digest, for every accepted
  private key the pruned integer \<open>p\<close> read from the low 32 bytes lies in
  \<open>[2 ^ 254, 2 ^ 255)\<close> and is a multiple of 8, and the secret scalar that
  \<^verbatim>\<open>deriveSecretScalar\<close> returns is the decimal string of \<open>p\<close> shifted right by 3 bits,
  which lies in \<open>[2 ^ 251, 2 ^ 252)\<close>.
\<close>

theorem secret_scalar_range:
  assumes "blake_contract env" and "checkPrivateKey env k = Inr kb"
  shows "\<exists>p v. p = leBufferToBigInt (pruneBuffer (slice (blake env kb) 0 32)) \<and>
           deriveSecretScalar env k = Inr (toString v) \<and> v = shiftRight p 3 \<and>
           2 ^ 254 \<le> p \<and> p < 2 ^ 255 \<and> 8 dvd p \<and> 2 ^ 251 \<le> v \<and> v < 2 ^ 252"
proof -
  let ?b = "slice (blake env kb) 0 32"
  let ?p = "leBufferToBigInt (pruneBuffer ?b)"
  from assms(1) have "length (blake env kb) = 64" by (simp add: blake_contract_def)
  then have len: "length ?b = 32" by (simp add: slice_def)
  have 1: "deriveSecretScalar env k = Inr (toString (shiftRight ?p 3))"
    using assms(2) by (simp add: deriveSecretScalar_def Let_def)
  note r = pruned_range [OF len]
  note v = shift_range [OF r]
  from 1 r v pruned_dvd8_any [of ?b] show ?thesis by blast
qed

theorem secret_scalar_range_witness:
  "blake_contract ref_env \<and> checkPrivateKey ref_env 1 = Inr (leBigIntToBuffer 1 32) \<and>
   leBufferToBigInt (pruneBuffer (slice (blake ref_env (leBigIntToBuffer 1 32)) 0 32)) = 2 ^ 254 \<and>
   shiftRight (2 ^ 254) 3 = 2 ^ 251 \<and>
   deriveSecretScalar ref_env 1 = Inr (toString (2 ^ 251))"
proof -
  from secret_scalar_range [OF ref_blake_contract ref_key1_accepted]
  have "deriveSecretScalar ref_env 1 = Inr (toString (shiftRight
      (leBufferToBigInt (pruneBuffer (slice (blake ref_env (leBigIntToBuffer 1 32)) 0 32))) 3))"
    by blast
  moreover have p: "leBufferToBigInt
      (pruneBuffer (slice (blake ref_env (leBigIntToBuffer 1 32)) 0 32)) = 2 ^ 254"
    using ref_s1 by simp
  moreover have "shiftRight (2 ^ 254) 3 = 2 ^ 251"
    by (simp add: shiftRight_3)
  ultimately show ?thesis
    using ref_blake_contract ref_key1_accepted by simp
qed

end
